theory Spec2Isabelle
  imports Complex_Main
begin

section \<open>Strings\<close>

text \<open>
  JavaScript strings are modelled as \<^typ>\<open>string\<close>; a character stands for a code point
  below 256. \<open>isSpace\<close> lists the white space and line terminators that
  \<^verbatim>\<open>String.prototype.trim\<close> removes in that range.
\<close>

definition isSpace :: "char \<Rightarrow> bool" where
  "isSpace c = (c \<in> set [CHR 0x09, CHR 0x0A, CHR 0x0B, CHR 0x0C, CHR 0x0D, CHR 0x20, CHR 0xA0])"

definition trim :: "string \<Rightarrow> string" where
  "trim s = rev (dropWhile isSpace (rev (dropWhile isSpace s)))"

text \<open>\<^verbatim>\<open>s.split(d)\<close> for a one-character separator: never an empty array.\<close>

fun splitOn :: "char \<Rightarrow> string \<Rightarrow> string list" where
  "splitOn d [] = [[]]"
| "splitOn d (c # cs) =
     (if c = d then [] # splitOn d cs
      else (case splitOn d cs of [] \<Rightarrow> [[c]] | l # ls \<Rightarrow> (c # l) # ls))"

fun startsWith :: "string \<Rightarrow> string \<Rightarrow> bool" where
  "startsWith s [] = True"
| "startsWith [] (p # ps) = False"
| "startsWith (c # cs) (p # ps) = (c = p \<and> startsWith cs ps)"

text \<open>\<^verbatim>\<open>s.includes(sub)\<close>\<close>

fun includesStr :: "string \<Rightarrow> string \<Rightarrow> bool" where
  "includesStr [] sub = (sub = [])"
| "includesStr (c # cs) sub = (startsWith (c # cs) sub \<or> includesStr cs sub)"

section \<open>Promises, subprocess results and the environment\<close>

text \<open>
  Every exported operation is an \<^verbatim>\<open>async\<close> function. Its outcome is the state its
  promise ends in: fulfilled with a value, rejected with an error (kept as its message), or
  never settled because an awaited subprocess never ends.
\<close>

datatype 'a promise = Fulfilled 'a | Rejected string | Pending

text \<open>
  The result object of a finished subprocess. The command-stream revision reads the exit
  code as \<^verbatim>\<open>result.code\<close>, the \<^verbatim>\<open>node:child_process\<close> revision as
  \<^verbatim>\<open>result.exitCode\<close>; both are the field \<open>exitCode\<close> here.
\<close>

record ExecResult =
  exitCode :: int
  stdout :: string
  stderr :: string

text \<open>
  How a subprocess is attached to the caller: \<open>Capture\<close> is command-stream's
  \<^verbatim>\<open>run({capture: true})\<close>, \<open>Mirror i\<close> its mirrored run (with \<open>i\<close> telling whether
  stdin is inherited), \<open>Pipe\<close> is \<^verbatim>\<open>spawn\<close> with \<^verbatim>\<open>stdio: 'pipe'\<close>, and
  \<open>Inherit input\<close> is \<^verbatim>\<open>spawn\<close> with inherited streams, \<open>input\<close> being the text
  written to the child's stdin, if any. A request is this mode with the argument vector.
\<close>

datatype stdio = Capture | Mirror bool | Pipe | Inherit "string option"

type_synonym request = "stdio \<times> string list"

text \<open>
  The program owns no state. What it runs against is a world \<open>'w\<close> of external tools; a
  state pairs the world with the requests issued so far, in order.
\<close>

type_synonym 'w state = "'w \<times> request list"

type_synonym ('a, 'w) async = "'w state \<Rightarrow> 'a promise \<times> 'w state"

definition returns :: "'a \<Rightarrow> ('a, 'w) async" where
  "returns a s = (Fulfilled a, s)"

definition throws :: "string \<Rightarrow> ('a, 'w) async" where
  "throws e s = (Rejected e, s)"

definition await :: "('a, 'w) async \<Rightarrow> ('a \<Rightarrow> ('b, 'w) async) \<Rightarrow> ('b, 'w) async" where
  "await m f s =
     (case m s of
        (Fulfilled a, s') \<Rightarrow> f a s'
      | (Rejected e, s') \<Rightarrow> (Rejected e, s')
      | (Pending, s') \<Rightarrow> (Pending, s'))"

text \<open>\<^verbatim>\<open>try { m } catch (error) { h(error.message) }\<close>\<close>

definition tryCatch :: "('a, 'w) async \<Rightarrow> (string \<Rightarrow> ('a, 'w) async) \<Rightarrow> ('a, 'w) async" where
  "tryCatch m h s =
     (case m s of
        (Rejected e, s') \<Rightarrow> h e s'
      | r \<Rightarrow> r)"

text \<open>
  The command-stream runner \<^verbatim>\<open>$`...`.run(options)\<close> is a library outside the
  repository: \<open>ex\<close> gives, for a world and a request, the promise's outcome and the next world.
  A request is the command line asked of the runner; what is started for it is the runner's
  to decide.
\<close>

type_synonym 'w runner = "'w \<Rightarrow> request \<Rightarrow> ExecResult promise \<times> 'w"

definition run :: "'w runner \<Rightarrow> stdio \<Rightarrow> string list \<Rightarrow> (ExecResult, 'w) async" where
  "run ex io argv s =
     (case ex (fst s) (io, argv) of (p, w') \<Rightarrow> (p, (w', snd s @ [(io, argv)])))"

section \<open>The command executor of the \<^verbatim>\<open>node:child_process\<close> revision\<close>

text \<open>
  What a spawned child does, as the events its handlers see, in order: data on stdout or
  stderr, \<^verbatim>\<open>close\<close> with an exit code (\<open>None\<close> is JavaScript's \<^verbatim>\<open>null\<close>, a child
  ended by a signal), or \<^verbatim>\<open>error\<close> with a message.
\<close>

datatype event = OnStdout string | OnStderr string | OnClose "int option" | OnError string

text \<open>\<^verbatim>\<open>exitCode || 0\<close>\<close>

definition orZero :: "int option \<Rightarrow> int" where
  "orZero c = (case c of None \<Rightarrow> 0 | Some n \<Rightarrow> (if n = 0 then 0 else n))"

text \<open>
  The handlers of \<^verbatim>\<open>execCommand\<close>, run over the events with the text collected so far.
  The first \<^verbatim>\<open>close\<close> or \<^verbatim>\<open>error\<close> resolves the promise; later events change nothing.
\<close>

fun settle :: "string \<Rightarrow> string \<Rightarrow> event list \<Rightarrow> ExecResult promise" where
  "settle out err [] = Pending"
| "settle out err (OnStdout d # es) = settle (out @ d) err es"
| "settle out err (OnStderr d # es) = settle out (err @ d) es"
| "settle out err (OnClose c # es) =
     Fulfilled \<lparr>exitCode = orZero c, stdout = trim out, stderr = trim err\<rparr>"
| "settle out err (OnError m # es) =
     Fulfilled \<lparr>exitCode = 1, stdout = trim out, stderr = m\<rparr>"

text \<open>The handlers of \<^verbatim>\<open>execInteractiveCommand\<close>; it resolves \<^verbatim>\<open>{exitCode}\<close> only.\<close>

fun settleInteractive :: "event list \<Rightarrow> int promise" where
  "settleInteractive [] = Pending"
| "settleInteractive (OnClose c # es) = Fulfilled (orZero c)"
| "settleInteractive (OnError m # es) = Fulfilled 1"
| "settleInteractive (e # es) = settleInteractive es"

text \<open>
  \<^verbatim>\<open>spawn\<close> is Node's: \<open>sp\<close> gives the child's events and the next world. A call of
  \<^verbatim>\<open>spawn\<close> that throws instead of returning a child is not modelled.
\<close>

type_synonym 'w spawner = "'w \<Rightarrow> request \<Rightarrow> event list \<times> 'w"

definition execCommand :: "'w spawner \<Rightarrow> string \<Rightarrow> string list \<Rightarrow> (ExecResult, 'w) async" where
  "execCommand sp command args s =
     (case sp (fst s) (Pipe, command # args) of
        (evs, w') \<Rightarrow> (settle [] [] evs, (w', snd s @ [(Pipe, command # args)])))"

definition execInteractiveCommand ::
  "'w spawner \<Rightarrow> string \<Rightarrow> string list \<Rightarrow> string option \<Rightarrow> (int, 'w) async" where
  "execInteractiveCommand sp command args input s =
     (let io = (case input of
                  None \<Rightarrow> Inherit None
                | Some i \<Rightarrow> (if i = [] then Inherit None else Inherit (Some i)))
      in case sp (fst s) (io, command # args) of
           (evs, w') \<Rightarrow> (settleInteractive evs, (w', snd s @ [(io, command # args)])))"

section \<open>JavaScript values\<close>

text \<open>
  The values \<^verbatim>\<open>JSON.parse\<close> can produce, and \<^verbatim>\<open>undefined\<close> for a property that is
  not there. A number is kept as a rational; the code only tests it for being zero.
\<close>

datatype jsval =
    JUndefined
  | JNull
  | JBool bool
  | JNum rat
  | JStr string
  | JArr "jsval list"
  | JObj "(string \<times> jsval) list"

text \<open>What \<^verbatim>\<open>if (v)\<close> and \<^verbatim>\<open>!v\<close> test.\<close>

fun truthy :: "jsval \<Rightarrow> bool" where
  "truthy JUndefined = False"
| "truthy JNull = False"
| "truthy (JBool b) = b"
| "truthy (JNum n) = (n \<noteq> 0)"
| "truthy (JStr s) = (s \<noteq> [])"
| "truthy (JArr xs) = True"
| "truthy (JObj kvs) = True"

text \<open>
  \<^verbatim>\<open>v.k\<close> for a key \<open>k\<close> that no prototype defines (the code reads \<^verbatim>\<open>username\<close>
  and \<^verbatim>\<open>email\<close>): a TypeError on \<^verbatim>\<open>null\<close> and \<^verbatim>\<open>undefined\<close>, the last binding
  of the key in an object, \<^verbatim>\<open>undefined\<close> otherwise.
\<close>

definition getProp :: "jsval \<Rightarrow> string \<Rightarrow> string + jsval" where
  "getProp v k =
     (case v of
        JUndefined \<Rightarrow>
          Inl (''Cannot read properties of undefined (reading '' @ [CHR 0x27] @ k @ [CHR 0x27] @ '')'')
      | JNull \<Rightarrow>
          Inl (''Cannot read properties of null (reading '' @ [CHR 0x27] @ k @ [CHR 0x27] @ '')'')
      | JObj kvs \<Rightarrow> (case map_of (rev kvs) k of None \<Rightarrow> Inr JUndefined | Some x \<Rightarrow> Inr x)
      | _ \<Rightarrow> Inr JUndefined)"

text \<open>An optional string option of a call: \<open>None\<close> when the caller left it out.\<close>

definition truthyS :: "string option \<Rightarrow> bool" where
  "truthyS v = (case v of None \<Rightarrow> False | Some x \<Rightarrow> x \<noteq> [])"

definition strOf :: "string option \<Rightarrow> string" where
  "strOf v = (case v of None \<Rightarrow> ''undefined'' | Some x \<Rightarrow> x)"

text \<open>The default of a destructured option: used only when the option is \<^verbatim>\<open>undefined\<close>.\<close>

definition defaultTo :: "string \<Rightarrow> string option \<Rightarrow> string option" where
  "defaultTo d v = (case v of None \<Rightarrow> Some d | Some x \<Rightarrow> Some x)"

record 'a identity =
  username :: 'a
  email :: 'a

record AuthOptions =
  hostname :: "string option"
  gitProtocol :: "string option"
  apiProtocol :: "string option"
  apiHost :: "string option"
  useKeyring :: bool
  jobToken :: "string option"
  token :: "string option"
  stdin :: bool

definition notFoundMessage :: string where
  "notFoundMessage =
     ''glab CLI not found. Please install glab: https://gitlab.com/gitlab-org/cli#installation''"

definition noUsernameMessage :: string where
  "noUsernameMessage =
     ''No username found in GitLab user data. Please ensure your GitLab account has a username.''"

definition noEmailMessage :: string where
  "noEmailMessage =
     ''No email found on GitLab account. Please set a primary email in your GitLab settings.''"

text \<open>\<^verbatim>\<open>process.platform === 'win32' ? 'where' : 'which'\<close>\<close>

definition lookupCommand :: "string \<Rightarrow> string" where
  "lookupCommand platform = (if platform = ''win32'' then ''where'' else ''which'')"

text \<open>\<^verbatim>\<open>if (hostname) { args.push('--hostname', hostname); }\<close>\<close>

definition hostnameArgs :: "string option \<Rightarrow> string list" where
  "hostnameArgs host = (if truthyS host then [''--hostname'', strOf host] else [])"

text \<open>\<^verbatim>\<open>scope === 'local' ? '--local' : '--global'\<close>, the scope defaulting to \<^verbatim>\<open>'global'\<close>.\<close>

definition scopeFlag :: "string option \<Rightarrow> string" where
  "scopeFlag scope =
     (if strOf (defaultTo ''global'' scope) = ''local'' then ''--local'' else ''--global'')"

text \<open>
  \<^verbatim>\<open>credential.${credentialUrl}.helper\<close> with \<^verbatim>\<open>credentialUrl = `https://${hostname}`\<close>,
  the hostname defaulting to \<^verbatim>\<open>gitlab.com\<close>.
\<close>

definition helperKey :: "string option \<Rightarrow> string" where
  "helperKey host =
     ''credential.'' @ (''https://'' @ strOf (defaultTo ''gitlab.com'' host)) @ ''.helper''"

definition credentialHelper :: "string \<Rightarrow> string" where
  "credentialHelper glabPath = ''!'' @ glabPath @ '' auth git-credential''"

text \<open>
  The calls to the logger only print; they are left out, and a logger that throws is not
  modelled.
\<close>

section \<open>The command-stream revision\<close>

definition getGlabPath :: "'w runner \<Rightarrow> string \<Rightarrow> (string, 'w) async" where
  "getGlabPath ex platform =
     tryCatch
       (await (run ex Capture [lookupCommand platform, ''glab''])
          (\<lambda>result.
             if exitCode result \<noteq> 0 \<or> stdout result = [] then throws notFoundMessage
             else returns (trim (hd (splitOn (CHR 0x0A) (stdout result))))))
       (\<lambda>message.
          if includesStr message ''not found'' then throws message
          else throws notFoundMessage)"

definition buildGlabAuthLoginArgs :: "AuthOptions \<Rightarrow> string list" where
  "buildGlabAuthLoginArgs options =
     (let args = [''auth'', ''login''];
          args = (if truthyS (hostname options)
                  then args @ [''--hostname'', strOf (hostname options)] else args);
          args = (if truthyS (gitProtocol options)
                  then args @ [''--git-protocol'', strOf (gitProtocol options)] else args);
          args = (if truthyS (apiProtocol options)
                  then args @ [''--api-protocol'', strOf (apiProtocol options)] else args);
          args = (if truthyS (apiHost options)
                  then args @ [''--api-host'', strOf (apiHost options)] else args);
          args = (if useKeyring options then args @ [''--use-keyring''] else args);
          args = (if truthyS (jobToken options)
                  then args @ [''--job-token'', strOf (jobToken options)]
                  else if truthyS (token options)
                  then args @ [''--token'', strOf (token options)]
                  else if stdin options then args @ [''--stdin'']
                  else args)
      in args)"

text \<open>The argument vector \<^verbatim>\<open>runGlabAuthLogin\<close> builds, after its defaults.\<close>

definition loginArgs :: "AuthOptions \<Rightarrow> string list" where
  "loginArgs options =
     buildGlabAuthLoginArgs
       \<lparr>hostname = defaultTo ''gitlab.com'' (hostname options),
        gitProtocol = defaultTo ''https'' (gitProtocol options),
        apiProtocol = defaultTo ''https'' (apiProtocol options),
        apiHost = apiHost options,
        useKeyring = useKeyring options,
        jobToken = jobToken options,
        token = token options,
        stdin = stdin options\<rparr>"

definition runGlabAuthLogin :: "'w runner \<Rightarrow> AuthOptions \<Rightarrow> (bool, 'w) async" where
  "runGlabAuthLogin ex options =
     (let args = loginArgs options
      in tryCatch
           (await (run ex (Mirror (stdin options)) (''glab'' # args))
              (\<lambda>result. if exitCode result \<noteq> 0 then returns False else returns True))
           (\<lambda>message. returns False))"

text \<open>
  The first inner \<^verbatim>\<open>try\<close> block returns from the whole function when a helper is already
  there; here it yields that decision, and the function returns right after it.
\<close>

definition runGlabAuthSetupGit ::
  "'w runner \<Rightarrow> string \<Rightarrow> string option \<Rightarrow> bool \<Rightarrow> (bool, 'w) async" where
  "runGlabAuthSetupGit ex platform host force =
     tryCatch
       (await (getGlabPath ex platform)
          (\<lambda>glabPath.
             await
               (tryCatch
                  (await (run ex Capture [''git'', ''config'', ''--global'', ''--get'', helperKey host])
                     (\<lambda>existingResult.
                        returns (exitCode existingResult = 0 \<and> stdout existingResult \<noteq> []
                                 \<and> \<not> force)))
                  (\<lambda>message. returns False))
               (\<lambda>alreadyConfigured.
                  if alreadyConfigured then returns True
                  else
                    await
                      (tryCatch
                         (await (run ex Capture [''git'', ''config'', ''--global'', helperKey host, []])
                            (\<lambda>cleared. returns ()))
                         (\<lambda>message. returns ()))
                      (\<lambda>ignored.
                         await
                           (run ex Capture
                              [''git'', ''config'', ''--global'', ''--add'', helperKey host,
                               credentialHelper glabPath])
                           (\<lambda>result.
                              if exitCode result \<noteq> 0 then returns False else returns True)))))
       (\<lambda>message. returns False)"

text \<open>
  \<^verbatim>\<open>JSON.parse\<close> is the engine's: \<open>parseJSON\<close> gives the parsed value, or \<open>Inl\<close> the
  message of the SyntaxError it throws.
\<close>

definition parseFailure :: "string \<Rightarrow> string \<Rightarrow> string" where
  "parseFailure parseError raw =
     ''Failed to parse GitLab user data: '' @ parseError @ ''. Raw output: '' @ raw"

definition getGitLabUsername ::
  "(string \<Rightarrow> string + jsval) \<Rightarrow> 'w runner \<Rightarrow> string option \<Rightarrow> (jsval, 'w) async" where
  "getGitLabUsername parseJSON ex host =
     await (run ex Capture (''glab'' # [''api'', ''user''] @ hostnameArgs host))
       (\<lambda>result.
          if exitCode result \<noteq> 0
          then throws (''Failed to get GitLab username: '' @ stderr result)
          else
            (case parseJSON (trim (stdout result)) of
               Inl parseError \<Rightarrow> throws (parseFailure parseError (stdout result))
             | Inr userData \<Rightarrow>
                 (case getProp userData ''username'' of
                    Inl typeError \<Rightarrow> throws typeError
                  | Inr name \<Rightarrow>
                      if \<not> truthy name then throws noUsernameMessage else returns name)))"

definition getGitLabEmail ::
  "(string \<Rightarrow> string + jsval) \<Rightarrow> 'w runner \<Rightarrow> string option \<Rightarrow> (jsval, 'w) async" where
  "getGitLabEmail parseJSON ex host =
     await (run ex Capture (''glab'' # [''api'', ''user''] @ hostnameArgs host))
       (\<lambda>result.
          if exitCode result \<noteq> 0
          then throws (''Failed to get GitLab email: '' @ stderr result)
          else
            (case parseJSON (trim (stdout result)) of
               Inl parseError \<Rightarrow> throws (parseFailure parseError (stdout result))
             | Inr userData \<Rightarrow>
                 (case getProp userData ''email'' of
                    Inl typeError \<Rightarrow> throws typeError
                  | Inr address \<Rightarrow>
                      if \<not> truthy address then throws noEmailMessage else returns address)))"

definition getGitLabUserInfo ::
  "(string \<Rightarrow> string + jsval) \<Rightarrow> 'w runner \<Rightarrow> string option \<Rightarrow> (jsval identity, 'w) async" where
  "getGitLabUserInfo parseJSON ex host =
     await (run ex Capture (''glab'' # [''api'', ''user''] @ hostnameArgs host))
       (\<lambda>result.
          if exitCode result \<noteq> 0
          then throws (''Failed to get GitLab user info: '' @ stderr result)
          else
            (case parseJSON (trim (stdout result)) of
               Inl parseError \<Rightarrow> throws (parseFailure parseError (stdout result))
             | Inr userData \<Rightarrow>
                 (case getProp userData ''username'' of
                    Inl typeError \<Rightarrow> throws typeError
                  | Inr name \<Rightarrow>
                      (case getProp userData ''email'' of
                         Inl typeError \<Rightarrow> throws typeError
                       | Inr address \<Rightarrow>
                           if \<not> truthy name then throws noUsernameMessage
                           else if \<not> truthy address then throws noEmailMessage
                           else returns \<lparr>username = name, email = address\<rparr>))))"

text \<open>
  How command-stream puts an interpolated value on the command line is the library's:
  \<open>interpolate\<close> gives the words that stand for the value in the request. A string need
  not stand for itself (quotes around it are read as quoting), an array stands for several
  words, and the line may be one that the shell rejects before \<^verbatim>\<open>git\<close> starts, which
  is then the runner's answer to the request. The scope flag and the keys \<^verbatim>\<open>user.name\<close>
  and \<^verbatim>\<open>user.email\<close> are plain words and stand for themselves; any other key is taken
  to do so too.
\<close>

definition setGitConfig ::
  "(jsval \<Rightarrow> string list) \<Rightarrow> 'w runner \<Rightarrow> string \<Rightarrow> jsval \<Rightarrow> string option \<Rightarrow>
   (unit, 'w) async" where
  "setGitConfig interpolate ex key val scope =
     await (run ex Capture ([''git'', ''config'', scopeFlag scope, key] @ interpolate val))
       (\<lambda>result.
          if exitCode result \<noteq> 0
          then throws (''Failed to set git config '' @ key @ '': '' @ stderr result)
          else returns ())"

definition getGitConfig :: "'w runner \<Rightarrow> string \<Rightarrow> string option \<Rightarrow> (string option, 'w) async" where
  "getGitConfig ex key scope =
     await (run ex Capture [''git'', ''config'', scopeFlag scope, key])
       (\<lambda>result.
          if exitCode result \<noteq> 0 then returns None
          else returns (Some (trim (stdout result))))"

definition setupGitIdentity ::
  "(string \<Rightarrow> string + jsval) \<Rightarrow> (jsval \<Rightarrow> string list) \<Rightarrow> 'w runner \<Rightarrow>
   string option \<Rightarrow> string option \<Rightarrow> bool \<Rightarrow> (jsval identity, 'w) async" where
  "setupGitIdentity parseJSON interpolate ex host scope dryRun =
     await (getGitLabUserInfo parseJSON ex host)
       (\<lambda>info.
          if dryRun then returns \<lparr>username = username info, email = email info\<rparr>
          else
            await (setGitConfig interpolate ex ''user.name'' (username info) scope)
              (\<lambda>done1.
                 await (setGitConfig interpolate ex ''user.email'' (email info) scope)
                   (\<lambda>done2. returns \<lparr>username = username info, email = email info\<rparr>)))"

definition verifyGitIdentity :: "'w runner \<Rightarrow> string option \<Rightarrow> (string option identity, 'w) async" where
  "verifyGitIdentity ex scope =
     await (getGitConfig ex ''user.name'' scope)
       (\<lambda>name.
          await (getGitConfig ex ''user.email'' scope)
            (\<lambda>address. returns \<lparr>username = name, email = address\<rparr>))"

section \<open>The \<^verbatim>\<open>node:child_process\<close> revision\<close>

text \<open>
  The second revision of \<^verbatim>\<open>index.js\<close> runs every command through \<^verbatim>\<open>execCommand\<close>
  or \<^verbatim>\<open>execInteractiveCommand\<close> and reads single fields with \<^verbatim>\<open>glab api user --jq\<close>.
  Its functions carry the suffix \<open>_spawn\<close>.
\<close>

definition getGlabPath_spawn :: "'w spawner \<Rightarrow> string \<Rightarrow> (string, 'w) async" where
  "getGlabPath_spawn sp platform =
     await (execCommand sp (lookupCommand platform) [''glab''])
       (\<lambda>result.
          if exitCode result \<noteq> 0 \<or> stdout result = [] then throws notFoundMessage
          else returns (trim (hd (splitOn (CHR 0x0A) (stdout result)))))"

definition loginArgs_spawn :: "AuthOptions \<Rightarrow> string list" where
  "loginArgs_spawn options =
     (let host = defaultTo ''gitlab.com'' (hostname options);
          protocol = defaultTo ''https'' (gitProtocol options);
          args = [''auth'', ''login''];
          args = (if truthyS host then args @ [''--hostname'', strOf host] else args);
          args = (if truthyS protocol then args @ [''--git-protocol'', strOf protocol] else args);
          args = (if useKeyring options then args @ [''--use-keyring''] else args);
          args = (if truthyS (token options) then args @ [''--stdin''] else args)
      in args)"

definition runGlabAuthLogin_spawn :: "'w spawner \<Rightarrow> AuthOptions \<Rightarrow> (bool, 'w) async" where
  "runGlabAuthLogin_spawn sp options =
     await
       (execInteractiveCommand sp ''glab'' (loginArgs_spawn options)
          (if truthyS (token options) then Some (strOf (token options) @ [CHR 0x0A]) else None))
       (\<lambda>code. if code \<noteq> 0 then returns False else returns True)"

definition runGlabAuthSetupGit_spawn ::
  "'w spawner \<Rightarrow> string \<Rightarrow> string option \<Rightarrow> bool \<Rightarrow> (bool, 'w) async" where
  "runGlabAuthSetupGit_spawn sp platform host force =
     tryCatch
       (await (getGlabPath_spawn sp platform)
          (\<lambda>glabPath.
             await (execCommand sp ''git'' [''config'', ''--global'', ''--get'', helperKey host])
               (\<lambda>existingHelper.
                  if exitCode existingHelper = 0 \<and> stdout existingHelper \<noteq> [] \<and> \<not> force
                  then returns True
                  else
                    await (execCommand sp ''git'' [''config'', ''--global'', helperKey host, []])
                      (\<lambda>cleared.
                         await
                           (execCommand sp ''git''
                              [''config'', ''--global'', ''--add'', helperKey host,
                               credentialHelper glabPath])
                           (\<lambda>result.
                              if exitCode result \<noteq> 0 then returns False else returns True)))))
       (\<lambda>message. returns False)"

definition isGlabAuthenticated_spawn :: "'w spawner \<Rightarrow> string option \<Rightarrow> (bool, 'w) async" where
  "isGlabAuthenticated_spawn sp host =
     await (execCommand sp ''glab'' ([''auth'', ''status''] @ hostnameArgs host))
       (\<lambda>result. if exitCode result \<noteq> 0 then returns False else returns True)"

definition getGitLabUsername_spawn :: "'w spawner \<Rightarrow> string option \<Rightarrow> (string, 'w) async" where
  "getGitLabUsername_spawn sp host =
     await (execCommand sp ''glab'' ([''api'', ''user'', ''--jq'', ''.username''] @ hostnameArgs host))
       (\<lambda>result.
          if exitCode result \<noteq> 0
          then throws (''Failed to get GitLab username: '' @ stderr result)
          else returns (stdout result))"

definition getGitLabEmail_spawn :: "'w spawner \<Rightarrow> string option \<Rightarrow> (string, 'w) async" where
  "getGitLabEmail_spawn sp host =
     await (execCommand sp ''glab'' ([''api'', ''user'', ''--jq'', ''.email''] @ hostnameArgs host))
       (\<lambda>result.
          if exitCode result \<noteq> 0
          then throws (''Failed to get GitLab email: '' @ stderr result)
          else if stdout result = [] then throws noEmailMessage
          else returns (stdout result))"

text \<open>
  \<^verbatim>\<open>Promise.all\<close> of two promises. When both reject, the error is that of the one that
  rejected first; \<open>secondFirst\<close> says it was the second.
\<close>

definition promiseAll2 :: "bool \<Rightarrow> 'a promise \<Rightarrow> 'b promise \<Rightarrow> ('a \<times> 'b) promise" where
  "promiseAll2 secondFirst p q =
     (case p of
        Fulfilled a \<Rightarrow>
          (case q of Fulfilled b \<Rightarrow> Fulfilled (a, b) | Rejected e \<Rightarrow> Rejected e | Pending \<Rightarrow> Pending)
      | Rejected e \<Rightarrow>
          (case q of Rejected e' \<Rightarrow> Rejected (if secondFirst then e' else e) | _ \<Rightarrow> Rejected e)
      | Pending \<Rightarrow>
          (case q of Rejected e \<Rightarrow> Rejected e | _ \<Rightarrow> Pending))"

text \<open>
  Both calls start, and so both children are spawned, the username's first, before either
  result is awaited.
\<close>

definition getGitLabUserInfo_spawn ::
  "'w spawner \<Rightarrow> bool \<Rightarrow> string option \<Rightarrow> (string identity, 'w) async" where
  "getGitLabUserInfo_spawn sp secondFirst host s =
     (case getGitLabUsername_spawn sp host s of
        (p, s1) \<Rightarrow>
          (case getGitLabEmail_spawn sp host s1 of
             (q, s2) \<Rightarrow>
               (case promiseAll2 secondFirst p q of
                  Fulfilled (name, address) \<Rightarrow> (Fulfilled \<lparr>username = name, email = address\<rparr>, s2)
                | Rejected e \<Rightarrow> (Rejected e, s2)
                | Pending \<Rightarrow> (Pending, s2))))"

definition setGitConfig_spawn ::
  "'w spawner \<Rightarrow> string \<Rightarrow> string \<Rightarrow> string option \<Rightarrow> (unit, 'w) async" where
  "setGitConfig_spawn sp key val scope =
     await (execCommand sp ''git'' [''config'', scopeFlag scope, key, val])
       (\<lambda>result.
          if exitCode result \<noteq> 0
          then throws (''Failed to set git config '' @ key @ '': '' @ stderr result)
          else returns ())"

definition getGitConfig_spawn ::
  "'w spawner \<Rightarrow> string \<Rightarrow> string option \<Rightarrow> (string option, 'w) async" where
  "getGitConfig_spawn sp key scope =
     await (execCommand sp ''git'' [''config'', scopeFlag scope, key])
       (\<lambda>result.
          if exitCode result \<noteq> 0 then returns None
          else returns (Some (stdout result)))"

definition setupGitIdentity_spawn ::
  "'w spawner \<Rightarrow> bool \<Rightarrow> string option \<Rightarrow> string option \<Rightarrow> bool \<Rightarrow> (string identity, 'w) async" where
  "setupGitIdentity_spawn sp secondFirst host scope dryRun =
     await (getGitLabUserInfo_spawn sp secondFirst host)
       (\<lambda>info.
          if dryRun then returns \<lparr>username = username info, email = email info\<rparr>
          else
            await (setGitConfig_spawn sp ''user.name'' (username info) scope)
              (\<lambda>done1.
                 await (setGitConfig_spawn sp ''user.email'' (email info) scope)
                   (\<lambda>done2. returns \<lparr>username = username info, email = email info\<rparr>)))"

definition verifyGitIdentity_spawn ::
  "'w spawner \<Rightarrow> string option \<Rightarrow> (string option identity, 'w) async" where
  "verifyGitIdentity_spawn sp scope =
     await (getGitConfig_spawn sp ''user.name'' scope)
       (\<lambda>name.
          await (getGitConfig_spawn sp ''user.email'' scope)
            (\<lambda>address. returns \<lparr>username = name, email = address\<rparr>))"

section \<open>A child ended by a signal\<close>

text \<open>
  \<open>asExitZero\<close> turns the \<^verbatim>\<open>close\<close> event of a child ended by a signal (exit code
  \<^verbatim>\<open>null\<close>) into that of a child that exited with code 0; \<open>exitZero sp\<close> is the
  spawner \<open>sp\<close> with every child changed so.
\<close>

definition asExitZero :: "event \<Rightarrow> event" where
  "asExitZero ev = (case ev of OnClose None \<Rightarrow> OnClose (Some 0) | _ \<Rightarrow> ev)"

definition exitZero :: "'w spawner \<Rightarrow> 'w spawner" where
  "exitZero sp = (\<lambda>w r. (map asExitZero (fst (sp w r)), snd (sp w r)))"

text \<open>
  The event of a child that settles the promise of an executor: its first \<^verbatim>\<open>close\<close> or
  \<^verbatim>\<open>error\<close>; \<open>None\<close> for a child that emits neither.
\<close>

fun firstEnd :: "event list \<Rightarrow> event option" where
  "firstEnd [] = None"
| "firstEnd (OnClose c # es) = Some (OnClose c)"
| "firstEnd (OnError m # es) = Some (OnError m)"
| "firstEnd (e # es) = firstEnd es"

section \<open>The requests of the credential-helper setup\<close>

text \<open>
  The arguments of the three \<^verbatim>\<open>git config\<close> calls of \<^verbatim>\<open>runGlabAuthSetupGit\<close>, after
  the command name \<^verbatim>\<open>git\<close>.
\<close>

definition getHelperArgs :: "string option \<Rightarrow> string list" where
  "getHelperArgs host = [''config'', ''--global'', ''--get'', helperKey host]"

definition clearHelperArgs :: "string option \<Rightarrow> string list" where
  "clearHelperArgs host = [''config'', ''--global'', helperKey host, []]"

definition addHelperArgs :: "string option \<Rightarrow> string \<Rightarrow> string list" where
  "addHelperArgs host glabPath =
     [''config'', ''--global'', ''--add'', helperKey host, credentialHelper glabPath]"

text \<open>A subprocess call failed: its promise rejected, or it exited with a code other than 0.\<close>

definition failed :: "ExecResult promise \<Rightarrow> bool" where
  "failed p = (case p of Fulfilled r \<Rightarrow> exitCode r \<noteq> 0 | Rejected e \<Rightarrow> True | Pending \<Rightarrow> False)"

text \<open>The helper lookup found a value that makes the setup return early.\<close>

definition configured :: "ExecResult promise \<Rightarrow> bool" where
  "configured p =
     (case p of Fulfilled r \<Rightarrow> exitCode r = 0 \<and> stdout r \<noteq> [] | Rejected e \<Rightarrow> False | Pending \<Rightarrow> False)"

text \<open>
  The node executor seen as a runner: the settled promise of \<^verbatim>\<open>execCommand\<close> for the
  child that \<open>sp\<close> spawns.
\<close>

definition spawnRunner :: "'w spawner \<Rightarrow> 'w runner" where
  "spawnRunner sp w q = (settle [] [] (fst (sp w q)), snd (sp w q))"

text \<open>
  What the idempotence of the setup needs from the external tools, for requests attached
  with mode \<open>io\<close>: looking the executable up and reading the helper leave the world as it is,
  the lookup answers the same in every world, and after a successful \<^verbatim>\<open>--add\<close> of a helper
  the read of the helper exits with 0 and prints something.
\<close>

definition gitLike :: "'w runner \<Rightarrow> stdio \<Rightarrow> string \<Rightarrow> string option \<Rightarrow> bool" where
  "gitLike ex io platform host =
     ((\<forall>w. snd (ex w (io, [lookupCommand platform, ''glab''])) = w)
      \<and> (\<forall>w w'. fst (ex w (io, [lookupCommand platform, ''glab'']))
                 = fst (ex w' (io, [lookupCommand platform, ''glab''])))
      \<and> (\<forall>w. snd (ex w (io, ''git'' # getHelperArgs host)) = w)
      \<and> (\<forall>w glabPath.
            fst (ex w (io, ''git'' # addHelperArgs host glabPath)) \<noteq> Pending
            \<and> \<not> failed (fst (ex w (io, ''git'' # addHelperArgs host glabPath))) \<longrightarrow>
            configured
              (fst (ex (snd (ex w (io, ''git'' # addHelperArgs host glabPath)))
                      (io, ''git'' # getHelperArgs host)))))"

section \<open>Sample environments\<close>

text \<open>
  A runner that reports a failed lookup of the executable, and a spawner whose children all
  exit with code 1 and no output; both leave the world, here of type \<^typ>\<open>unit\<close>, alone.
\<close>

definition failingRunner :: "unit runner" where
  "failingRunner w q = (Fulfilled \<lparr>exitCode = 1, stdout = [], stderr = []\<rparr>, w)"

definition failingSpawner :: "unit spawner" where
  "failingSpawner w q = ([OnClose (Some 1)], w)"

text \<open>A spawner whose children all exit with code 0 and no output.\<close>

definition silentSpawner :: "unit spawner" where
  "silentSpawner w q = ([OnClose (Some 0)], w)"

text \<open>A runner whose commands all print the given text and exit with code 0.\<close>

definition printingRunner :: "string \<Rightarrow> unit runner" where
  "printingRunner text w q = (Fulfilled \<lparr>exitCode = 0, stdout = text, stderr = []\<rparr>, w)"

definition printingSpawner :: "string \<Rightarrow> unit spawner" where
  "printingSpawner text w q = ([OnStdout text, OnClose (Some 0)], w)"

text \<open>A spawner whose children all print \<^verbatim>\<open>ok\<close> and are then ended by a signal.\<close>

definition killedSpawner :: "unit spawner" where
  "killedSpawner w q = ([OnStdout ''ok'', OnClose None], w)"

text \<open>A runner whose commands all print an HTML page, complain and exit with code 1.\<close>

definition errorRunner :: "unit runner" where
  "errorRunner w q =
     (Fulfilled \<lparr>exitCode = 1, stdout = ''<html>'', stderr = ''glab: 401 Unauthorized''\<rparr>, w)"

text \<open>
  A small world of tools: a git configuration as a list of bindings, newest first, which can
  be locked against writes; \<^verbatim>\<open>glab\<close> installed and logged in as the user \<^verbatim>\<open>ada\<close>.
\<close>

record toyWorld =
  config :: "(string \<times> string) list"
  locked :: bool

definition quoted :: "string \<Rightarrow> string" where
  "quoted s = [CHR 0x22] @ s @ [CHR 0x22]"

definition adaJson :: string where
  "adaJson = ''{'' @ quoted ''username'' @ '':'' @ quoted ''ada'' @ '',''
             @ quoted ''email'' @ '':'' @ quoted ''ada@example.com'' @ ''}''"

text \<open>A stand-in for the interpolation that knows strings, each standing for itself.\<close>

definition plainWord :: "jsval \<Rightarrow> string list" where
  "plainWord v = (case v of JStr s \<Rightarrow> [s] | _ \<Rightarrow> [])"

text \<open>A stand-in for \<^verbatim>\<open>JSON.parse\<close> that knows three texts.\<close>

definition sampleParse :: "string \<Rightarrow> string + jsval" where
  "sampleParse text =
     (if text = adaJson
      then Inr (JObj [(''username'', JStr ''ada''), (''email'', JStr ''ada@example.com'')])
      else if text = ''{}'' then Inr (JObj [])
      else if text = ''null'' then Inr JNull
      else Inl ''Unexpected token'')"

definition toyRead :: "toyWorld \<Rightarrow> string \<Rightarrow> string \<Rightarrow> ExecResult \<times> toyWorld" where
  "toyRead w flag key =
     (case map_of (config w) (flag @ '' '' @ key) of
        None \<Rightarrow> (\<lparr>exitCode = 1, stdout = [], stderr = []\<rparr>, w)
      | Some v \<Rightarrow> (\<lparr>exitCode = 0, stdout = v, stderr = []\<rparr>, w))"

definition toyWrite :: "toyWorld \<Rightarrow> string \<Rightarrow> string \<Rightarrow> string \<Rightarrow> ExecResult \<times> toyWorld" where
  "toyWrite w flag key v =
     (if locked w
      then (\<lparr>exitCode = 255, stdout = [], stderr = ''error: could not lock config file''\<rparr>, w)
      else (\<lparr>exitCode = 0, stdout = [], stderr = []\<rparr>,
            w\<lparr>config := (flag @ '' '' @ key, v) # config w\<rparr>))"

text \<open>\<^verbatim>\<open>git config\<close> with the arguments after \<^verbatim>\<open>config\<close>.\<close>

fun toyGitConfig :: "toyWorld \<Rightarrow> string list \<Rightarrow> ExecResult \<times> toyWorld" where
  "toyGitConfig w [flag, key] = toyRead w flag key"
| "toyGitConfig w [flag, a, b] =
     (if a = ''--get'' then toyRead w flag b else toyWrite w flag a b)"
| "toyGitConfig w [flag, a, key, v] =
     (if a = ''--add'' then toyWrite w flag key v
      else (\<lparr>exitCode = 129, stdout = [], stderr = ''usage: git config''\<rparr>, w))"
| "toyGitConfig w args = (\<lparr>exitCode = 129, stdout = [], stderr = ''usage: git config''\<rparr>, w)"

definition toyTool :: "toyWorld \<Rightarrow> string list \<Rightarrow> ExecResult \<times> toyWorld" where
  "toyTool w argv =
     (case argv of
        [] \<Rightarrow> (\<lparr>exitCode = 127, stdout = [], stderr = ''command not found''\<rparr>, w)
      | command # args \<Rightarrow>
          if command = ''which'' \<or> command = ''where''
          then (\<lparr>exitCode = 0, stdout = ''/usr/bin/glab'', stderr = []\<rparr>, w)
          else if command = ''glab''
          then (if ''.username'' \<in> set args
                then (\<lparr>exitCode = 0, stdout = ''ada'', stderr = []\<rparr>, w)
                else if ''.email'' \<in> set args
                then (\<lparr>exitCode = 0, stdout = ''ada@example.com'', stderr = []\<rparr>, w)
                else if ''api'' \<in> set args
                then (\<lparr>exitCode = 0, stdout = adaJson, stderr = []\<rparr>, w)
                else (\<lparr>exitCode = 0, stdout = [], stderr = []\<rparr>, w))
          else if command = ''git'' then toyGitConfig w (tl args)
          else (\<lparr>exitCode = 127, stdout = [], stderr = ''command not found''\<rparr>, w))"

definition toyRunner :: "toyWorld runner" where
  "toyRunner w q = (Fulfilled (fst (toyTool w (snd q))), snd (toyTool w (snd q)))"

definition toySpawner :: "toyWorld spawner" where
  "toySpawner w q =
     ([OnStdout (stdout (fst (toyTool w (snd q)))), OnStderr (stderr (fst (toyTool w (snd q)))),
       OnClose (Some (exitCode (fst (toyTool w (snd q)))))],
      snd (toyTool w (snd q)))"

definition emptyWorld :: toyWorld where
  "emptyWorld = \<lparr>config = [], locked = False\<rparr>"

definition lockedWorld :: toyWorld where
  "lockedWorld = \<lparr>config = [], locked = True\<rparr>"

text \<open>Options with only a token set.\<close>

definition tokenOnly :: AuthOptions where
  "tokenOnly =
     \<lparr>hostname = None, gitProtocol = None, apiProtocol = None, apiHost = None,
      useKeyring = False, jobToken = None, token = Some ''glpat-abc'', stdin = False\<rparr>"

text \<open>Two outputs of the lookup: one from \<^verbatim>\<open>where\<close>, and one with a padded first line.\<close>

definition whereOutput :: string where
  "whereOutput =
     ''C:'' @ [CHR 0x5C] @ ''glab.exe'' @ [CHR 0x0D, CHR 0x0A]
     @ ''D:'' @ [CHR 0x5C] @ ''glab.exe'' @ [CHR 0x0D, CHR 0x0A]"

definition paddedOutput :: string where
  "paddedOutput = ''/usr/bin/glab '' @ [CHR 0x0A] @ ''/usr/local/bin/glab'' @ [CHR 0x0A]"

text \<open>
  The user record after a vertical tab, which \<^verbatim>\<open>trim\<close> removes and JSON does not allow.
\<close>

definition tabbedJson :: string where
  "tabbedJson = [CHR 0x0B] @ adaJson"

section \<open>Properties of the command executor\<close>

lemmas async_defs = returns_def throws_def await_def tryCatch_def

lemma settle_not_rejected: "settle out err evs \<noteq> Rejected e"
  by (induction out err evs rule: settle.induct) simp_all

lemma settleInteractive_not_rejected: "settleInteractive evs \<noteq> Rejected e"
  by (induction evs rule: settleInteractive.induct) simp_all

lemma settle_terminal:
  "(\<exists>c. OnClose c \<in> set evs) \<or> (\<exists>m. OnError m \<in> set evs) \<Longrightarrow>
   \<exists>r. settle out err evs = Fulfilled r"
  by (induction out err evs rule: settle.induct) auto

lemma settleInteractive_terminal:
  "(\<exists>c. OnClose c \<in> set evs) \<or> (\<exists>m. OnError m \<in> set evs) \<Longrightarrow>
   \<exists>n. settleInteractive evs = Fulfilled n"
  by (induction evs rule: settleInteractive.induct) auto

lemma settle_asExitZero: "settle out err (map asExitZero evs) = settle out err evs"
  by (induction out err evs rule: settle.induct)
    (simp_all add: asExitZero_def orZero_def split: option.splits)

lemma settleInteractive_asExitZero:
  "settleInteractive (map asExitZero evs) = settleInteractive evs"
  by (induction evs rule: settleInteractive.induct)
    (simp_all add: asExitZero_def orZero_def split: option.splits)

lemma execCommand_exitZero: "execCommand (exitZero sp) = execCommand sp"
  by (rule ext)+ (simp add: execCommand_def exitZero_def settle_asExitZero split: prod.splits)

lemma execInteractiveCommand_exitZero:
  "execInteractiveCommand (exitZero sp) = execInteractiveCommand sp"
  by (rule ext)+
    (simp add: execInteractiveCommand_def exitZero_def settleInteractive_asExitZero Let_def
      split: prod.splits)

lemma execCommand_not_rejected: "fst (execCommand sp command args s) \<noteq> Rejected e"
  by (simp add: execCommand_def settle_not_rejected split: prod.splits)

lemma execInteractiveCommand_not_rejected:
  "fst (execInteractiveCommand sp command args input s) \<noteq> Rejected e"
  by (simp add: execInteractiveCommand_def settleInteractive_not_rejected Let_def
      split: prod.splits)

lemma settle_ends: "firstEnd evs \<noteq> None \<Longrightarrow> \<exists>r. settle out err evs = Fulfilled r"
  by (induction out err evs rule: settle.induct) simp_all

lemma settleInteractive_ends:
  "firstEnd evs \<noteq> None \<Longrightarrow> \<exists>n. settleInteractive evs = Fulfilled n"
  by (induction evs rule: settleInteractive.induct) simp_all

lemma settle_signal:
  "firstEnd evs = Some (OnClose None) \<Longrightarrow>
   \<exists>r. settle out err evs = Fulfilled r \<and> exitCode r = 0"
  by (induction out err evs rule: settle.induct) (simp_all add: orZero_def)

lemma settleInteractive_signal:
  "firstEnd evs = Some (OnClose None) \<Longrightarrow> settleInteractive evs = Fulfilled 0"
  by (induction evs rule: settleInteractive.induct) (simp_all add: orZero_def)

lemma execCommand_fst:
  "fst (execCommand sp command args s) = settle [] [] (fst (sp (fst s) (Pipe, command # args)))"
  by (simp add: execCommand_def split: prod.splits)

lemma execInteractiveCommand_fst:
  "fst (execInteractiveCommand sp command args input s)
     = settleInteractive
         (fst (sp (fst s)
                 (case input of
                    None \<Rightarrow> Inherit None
                  | Some i \<Rightarrow> (if i = [] then Inherit None else Inherit (Some i)),
                  command # args)))"
  by (simp add: execInteractiveCommand_def Let_def split: prod.splits)

text \<open>
  Claim C10. \<^verbatim>\<open>execCommand\<close> and \<^verbatim>\<open>execInteractiveCommand\<close> never reject, and each
  resolves whenever the child it spawned emits \<^verbatim>\<open>close\<close> or \<^verbatim>\<open>error\<close>. When the child
  closes with the exit code \<^verbatim>\<open>null\<close> (ended by a signal), the executor resolves with
  \<open>exitCode = 0\<close>. So both executors, and with them every function of the revision that
  branches on the exit code, give the same outcome whether the children were ended by a
  signal or exited with code 0.
\<close>

theorem exec_never_rejects_and_null_exit_is_zero:
  "(\<forall>e. fst (execCommand sp command args s) \<noteq> Rejected e)
   \<and> (\<forall>e. fst (execInteractiveCommand sp command args input s) \<noteq> Rejected e)
   \<and> (let child = fst (sp (fst s) (Pipe, command # args))
      in (firstEnd child \<noteq> None \<longrightarrow>
            (\<exists>r. fst (execCommand sp command args s) = Fulfilled r))
         \<and> (firstEnd child = Some (OnClose None) \<longrightarrow>
              (\<exists>r. fst (execCommand sp command args s) = Fulfilled r \<and> exitCode r = 0)))
   \<and> (let io = (case input of
                   None \<Rightarrow> Inherit None
                 | Some i \<Rightarrow> (if i = [] then Inherit None else Inherit (Some i)));
          child = fst (sp (fst s) (io, command # args))
      in (firstEnd child \<noteq> None \<longrightarrow>
            (\<exists>n. fst (execInteractiveCommand sp command args input s) = Fulfilled n))
         \<and> (firstEnd child = Some (OnClose None) \<longrightarrow>
              fst (execInteractiveCommand sp command args input s) = Fulfilled 0))
   \<and> execCommand (exitZero sp) = execCommand sp
   \<and> execInteractiveCommand (exitZero sp) = execInteractiveCommand sp
   \<and> isGlabAuthenticated_spawn (exitZero sp) = isGlabAuthenticated_spawn sp
   \<and> runGlabAuthLogin_spawn (exitZero sp) = runGlabAuthLogin_spawn sp
   \<and> getGlabPath_spawn (exitZero sp) = getGlabPath_spawn sp
   \<and> runGlabAuthSetupGit_spawn (exitZero sp) = runGlabAuthSetupGit_spawn sp
   \<and> getGitLabUsername_spawn (exitZero sp) = getGitLabUsername_spawn sp
   \<and> getGitLabEmail_spawn (exitZero sp) = getGitLabEmail_spawn sp
   \<and> setGitConfig_spawn (exitZero sp) = setGitConfig_spawn sp
   \<and> getGitConfig_spawn (exitZero sp) = getGitConfig_spawn sp"
proof -
  have a: "isGlabAuthenticated_spawn (exitZero sp) = isGlabAuthenticated_spawn sp"
    unfolding isGlabAuthenticated_spawn_def execCommand_exitZero by (rule refl)
  have b: "runGlabAuthLogin_spawn (exitZero sp) = runGlabAuthLogin_spawn sp"
    unfolding runGlabAuthLogin_spawn_def execInteractiveCommand_exitZero by (rule refl)
  have c: "getGlabPath_spawn (exitZero sp) = getGlabPath_spawn sp"
    unfolding getGlabPath_spawn_def execCommand_exitZero by (rule refl)
  have d: "runGlabAuthSetupGit_spawn (exitZero sp) = runGlabAuthSetupGit_spawn sp"
    unfolding runGlabAuthSetupGit_spawn_def execCommand_exitZero c by (rule refl)
  have e: "getGitLabUsername_spawn (exitZero sp) = getGitLabUsername_spawn sp"
    unfolding getGitLabUsername_spawn_def execCommand_exitZero by (rule refl)
  have f: "getGitLabEmail_spawn (exitZero sp) = getGitLabEmail_spawn sp"
    unfolding getGitLabEmail_spawn_def execCommand_exitZero by (rule refl)
  have g: "setGitConfig_spawn (exitZero sp) = setGitConfig_spawn sp"
    unfolding setGitConfig_spawn_def execCommand_exitZero by (rule refl)
  have h: "getGitConfig_spawn (exitZero sp) = getGitConfig_spawn sp"
    unfolding getGitConfig_spawn_def execCommand_exitZero by (rule refl)
  have i: "let child = fst (sp (fst s) (Pipe, command # args))
      in (firstEnd child \<noteq> None \<longrightarrow>
            (\<exists>r. fst (execCommand sp command args s) = Fulfilled r))
         \<and> (firstEnd child = Some (OnClose None) \<longrightarrow>
              (\<exists>r. fst (execCommand sp command args s) = Fulfilled r \<and> exitCode r = 0))"
    unfolding Let_def execCommand_fst
    by (intro conjI impI settle_ends settle_signal)
  have j: "let io = (case input of
                   None \<Rightarrow> Inherit None
                 | Some i \<Rightarrow> (if i = [] then Inherit None else Inherit (Some i)));
          child = fst (sp (fst s) (io, command # args))
      in (firstEnd child \<noteq> None \<longrightarrow>
            (\<exists>n. fst (execInteractiveCommand sp command args input s) = Fulfilled n))
         \<and> (firstEnd child = Some (OnClose None) \<longrightarrow>
              fst (execInteractiveCommand sp command args input s) = Fulfilled 0)"
    unfolding Let_def execInteractiveCommand_fst
    by (intro conjI impI settleInteractive_ends settleInteractive_signal)
  have k: "\<forall>e. fst (execCommand sp command args s) \<noteq> Rejected e"
    by (simp add: execCommand_not_rejected)
  have l: "\<forall>e. fst (execInteractiveCommand sp command args input s) \<noteq> Rejected e"
    by (simp add: execInteractiveCommand_not_rejected)
  show ?thesis
    by (intro conjI k l i j execCommand_exitZero execInteractiveCommand_exitZero a b c d e f g h)
qed

theorem exec_never_rejects_and_null_exit_is_zero_witness:
  "firstEnd (fst (killedSpawner () (Pipe, ''git'' # [''status''])))
     = Some (OnClose None)
   \<and> fst (execCommand killedSpawner ''git'' [''status''] ((), []))
       = Fulfilled \<lparr>exitCode = 0, stdout = ''ok'', stderr = []\<rparr>
   \<and> firstEnd (fst (killedSpawner () (Inherit None, ''glab'' # [''auth'', ''login''])))
       = Some (OnClose None)
   \<and> fst (execInteractiveCommand killedSpawner ''glab'' [''auth'', ''login''] None ((), []))
       = Fulfilled 0
   \<and> fst (isGlabAuthenticated_spawn killedSpawner None ((), [])) = Fulfilled True"
proof -
  note t = exec_never_rejects_and_null_exit_is_zero
      [where sp = killedSpawner and s = "((), [])" and input = None]
  have h1: "firstEnd (fst (killedSpawner () (Pipe, ''git'' # [''status''])))
     = Some (OnClose None)"
    by (simp add: killedSpawner_def)
  have h2: "firstEnd (fst (killedSpawner () (Inherit None, ''glab'' # [''auth'', ''login''])))
     = Some (OnClose None)"
    by (simp add: killedSpawner_def)
  have "\<exists>r. fst (execCommand killedSpawner ''git'' [''status''] ((), [])) = Fulfilled r
          \<and> exitCode r = 0"
    using t [where command = "''git''" and args = "[''status'']"] h1
    by (simp add: Let_def)
  then have r1: "fst (execCommand killedSpawner ''git'' [''status''] ((), []))
       = Fulfilled \<lparr>exitCode = 0, stdout = ''ok'', stderr = []\<rparr>"
    by (simp add: execCommand_def killedSpawner_def trim_def isSpace_def)
  have r2: "fst (execInteractiveCommand killedSpawner ''glab'' [''auth'', ''login''] None ((), []))
       = Fulfilled 0"
    using t [where command = "''glab''" and args = "[''auth'', ''login'']"] h2
    by (simp add: Let_def)
  have r3: "fst (isGlabAuthenticated_spawn killedSpawner None ((), [])) = Fulfilled True"
    by (simp add: isGlabAuthenticated_spawn_def async_defs execCommand_def killedSpawner_def
        hostnameArgs_def truthyS_def orZero_def)
  show ?thesis
    using h1 h2 r1 r2 r3 by (intro conjI)
qed

section \<open>Credential-helper setup: when it returns false\<close>

lemmas helper_args = getHelperArgs_def clearHelperArgs_def addHelperArgs_def

lemma setup_false_iff:
  "fst (runGlabAuthSetupGit ex platform host force s) = Fulfilled False \<longleftrightarrow>
     (\<exists>e. fst (getGlabPath ex platform s) = Rejected e)
     \<or> (\<exists>glabPath.
          fst (getGlabPath ex platform s) = Fulfilled glabPath
          \<and> (let g = run ex Capture (''git'' # getHelperArgs host)
                        (snd (getGlabPath ex platform s));
                  c = run ex Capture (''git'' # clearHelperArgs host) (snd g);
                  a = run ex Capture (''git'' # addHelperArgs host glabPath) (snd c)
              in fst g \<noteq> Pending \<and> \<not> (configured (fst g) \<and> \<not> force)
                 \<and> fst c \<noteq> Pending \<and> failed (fst a)))"
proof -
  obtain p s1 where l: "getGlabPath ex platform s = (p, s1)"
    by (cases "getGlabPath ex platform s")
  show ?thesis
  proof (cases p)
    case (Fulfilled glabPath)
    obtain pg sg where g: "run ex Capture (''git'' # getHelperArgs host) s1 = (pg, sg)"
      by (cases "run ex Capture (''git'' # getHelperArgs host) s1")
    obtain pc sc where c: "run ex Capture (''git'' # clearHelperArgs host) sg = (pc, sc)"
      by (cases "run ex Capture (''git'' # clearHelperArgs host) sg")
    obtain pa sa where a: "run ex Capture (''git'' # addHelperArgs host glabPath) sc = (pa, sa)"
      by (cases "run ex Capture (''git'' # addHelperArgs host glabPath) sc")
    note g' = g [unfolded helper_args]
    note c' = c [unfolded helper_args]
    note a' = a [unfolded helper_args]
    show ?thesis
      by (cases pg; cases pc; cases pa;
          simp add: runGlabAuthSetupGit_def async_defs l Fulfilled g c a g' c' a'
            failed_def configured_def; blast)
  next
    case (Rejected e)
    then show ?thesis by (simp add: runGlabAuthSetupGit_def async_defs l)
  next
    case Pending
    then show ?thesis by (simp add: runGlabAuthSetupGit_def async_defs l)
  qed
qed

lemma execCommand_cases:
  assumes "execCommand sp command args s = (p, s')"
  shows "p \<noteq> Rejected e"
  using execCommand_not_rejected [of sp command args s e] assms by simp

lemma setup_spawn_false_iff:
  "fst (runGlabAuthSetupGit_spawn sp platform host force s) = Fulfilled False \<longleftrightarrow>
     (\<exists>e. fst (getGlabPath_spawn sp platform s) = Rejected e)
     \<or> (\<exists>glabPath.
          fst (getGlabPath_spawn sp platform s) = Fulfilled glabPath
          \<and> (let g = execCommand sp ''git'' (getHelperArgs host)
                        (snd (getGlabPath_spawn sp platform s));
                  c = execCommand sp ''git'' (clearHelperArgs host) (snd g);
                  a = execCommand sp ''git'' (addHelperArgs host glabPath) (snd c)
              in fst g \<noteq> Pending \<and> \<not> (configured (fst g) \<and> \<not> force)
                 \<and> fst c \<noteq> Pending \<and> failed (fst a)))"
proof -
  obtain p s1 where l: "getGlabPath_spawn sp platform s = (p, s1)"
    by (cases "getGlabPath_spawn sp platform s")
  show ?thesis
  proof (cases p)
    case (Fulfilled glabPath)
    obtain pg sg where g: "execCommand sp ''git'' (getHelperArgs host) s1 = (pg, sg)"
      by (cases "execCommand sp ''git'' (getHelperArgs host) s1")
    obtain pc sc where c: "execCommand sp ''git'' (clearHelperArgs host) sg = (pc, sc)"
      by (cases "execCommand sp ''git'' (clearHelperArgs host) sg")
    obtain pa sa where a: "execCommand sp ''git'' (addHelperArgs host glabPath) sc = (pa, sa)"
      by (cases "execCommand sp ''git'' (addHelperArgs host glabPath) sc")
    note g' = g [unfolded helper_args]
    note c' = c [unfolded helper_args]
    note a' = a [unfolded helper_args]
    note n = execCommand_cases [OF g] execCommand_cases [OF c] execCommand_cases [OF a]
    show ?thesis
      using n
      by (cases pg; cases pc; cases pa;
          simp add: runGlabAuthSetupGit_spawn_def async_defs l Fulfilled g c a g' c' a'
            failed_def configured_def; blast)
  next
    case (Rejected e)
    then show ?thesis by (simp add: runGlabAuthSetupGit_spawn_def async_defs l)
  next
    case Pending
    then show ?thesis by (simp add: runGlabAuthSetupGit_spawn_def async_defs l)
  qed
qed

lemma setup_never_rejects:
  "fst (runGlabAuthSetupGit ex platform host force s) \<noteq> Rejected e"
  by (simp add: runGlabAuthSetupGit_def tryCatch_def returns_def
      split: prod.splits promise.splits)

lemma setup_spawn_never_rejects:
  "fst (runGlabAuthSetupGit_spawn sp platform host force s) \<noteq> Rejected e"
  by (simp add: runGlabAuthSetupGit_spawn_def tryCatch_def returns_def
      split: prod.splits promise.splits)

text \<open>
  Claim C1, as stated, fails: \<^verbatim>\<open>runGlabAuthSetupGit\<close> also returns false when the path of
  the glab executable cannot be resolved. With a lookup that exits with code 1, both
  revisions return false after the lookup alone; no \<^verbatim>\<open>git config\<close> call, and so no add
  step, was made.
\<close>

theorem setup_false_without_add_step:
  "runGlabAuthSetupGit failingRunner ''linux'' None False ((), [])
     = (Fulfilled False, ((), [(Capture, [''which'', ''glab''])]))
   \<and> runGlabAuthSetupGit_spawn failingSpawner ''linux'' None False ((), [])
     = (Fulfilled False, ((), [(Pipe, [''which'', ''glab''])]))"
  by (simp add: runGlabAuthSetupGit_def runGlabAuthSetupGit_spawn_def getGlabPath_def
      getGlabPath_spawn_def async_defs run_def execCommand_def failingRunner_def failingSpawner_def
      lookupCommand_def notFoundMessage_def orZero_def)

text \<open>
  Claim C1, amended. In both revisions \<^verbatim>\<open>runGlabAuthSetupGit\<close> never raises, and it returns
  false exactly in two cases: resolving the path of the glab executable fails
  (\<^verbatim>\<open>getGlabPath\<close> raises), or the final add step is reached and fails (it exits with a code
  other than 0 or, in the command-stream revision, its runner raises). The add step is reached
  when the path is resolved, the read of the existing helper and the clearing write both end,
  and the function did not return early because a helper was found and \<open>force\<close> is false.
\<close>

theorem setup_returns_false_iff:
  "(\<forall>e. fst (runGlabAuthSetupGit ex platform host force s) \<noteq> Rejected e)
   \<and> (fst (runGlabAuthSetupGit ex platform host force s) = Fulfilled False \<longleftrightarrow>
        (\<exists>e. fst (getGlabPath ex platform s) = Rejected e)
        \<or> (\<exists>glabPath.
             fst (getGlabPath ex platform s) = Fulfilled glabPath
             \<and> (let g = run ex Capture (''git'' # getHelperArgs host)
                           (snd (getGlabPath ex platform s));
                     c = run ex Capture (''git'' # clearHelperArgs host) (snd g);
                     a = run ex Capture (''git'' # addHelperArgs host glabPath) (snd c)
                 in fst g \<noteq> Pending \<and> \<not> (configured (fst g) \<and> \<not> force)
                    \<and> fst c \<noteq> Pending \<and> failed (fst a))))
   \<and> (\<forall>e. fst (runGlabAuthSetupGit_spawn sp platform' host' force' s') \<noteq> Rejected e)
   \<and> (fst (runGlabAuthSetupGit_spawn sp platform' host' force' s') = Fulfilled False \<longleftrightarrow>
        (\<exists>e. fst (getGlabPath_spawn sp platform' s') = Rejected e)
        \<or> (\<exists>glabPath.
             fst (getGlabPath_spawn sp platform' s') = Fulfilled glabPath
             \<and> (let g = execCommand sp ''git'' (getHelperArgs host')
                           (snd (getGlabPath_spawn sp platform' s'));
                     c = execCommand sp ''git'' (clearHelperArgs host') (snd g);
                     a = execCommand sp ''git'' (addHelperArgs host' glabPath) (snd c)
                 in fst g \<noteq> Pending \<and> \<not> (configured (fst g) \<and> \<not> force')
                    \<and> fst c \<noteq> Pending \<and> failed (fst a))))"
  by (intro conjI allI setup_never_rejects setup_spawn_never_rejects setup_false_iff
      setup_spawn_false_iff)

theorem setup_returns_false_iff_witness:
  "fst (getGlabPath toyRunner ''linux'' (lockedWorld, [])) = Fulfilled ''/usr/bin/glab''
   \<and> failed (fst (run toyRunner Capture (''git'' # addHelperArgs None ''/usr/bin/glab'')
                  (lockedWorld, [])))
   \<and> fst (runGlabAuthSetupGit toyRunner ''linux'' None False (lockedWorld, [])) = Fulfilled False
   \<and> (\<exists>e. fst (getGlabPath_spawn failingSpawner ''linux'' ((), [])) = Rejected e)
   \<and> fst (runGlabAuthSetupGit_spawn failingSpawner ''linux'' None False ((), []))
       = Fulfilled False"
proof -
  have l: "getGlabPath toyRunner ''linux'' (lockedWorld, [])
             = (Fulfilled ''/usr/bin/glab'', (lockedWorld, [(Capture, [''which'', ''glab''])]))"
    by (simp add: getGlabPath_def async_defs run_def toyRunner_def toyTool_def lookupCommand_def
        trim_def isSpace_def)
  have g: "run toyRunner Capture (''git'' # getHelperArgs None) (lockedWorld, w)
             = (Fulfilled \<lparr>exitCode = 1, stdout = [], stderr = []\<rparr>,
                (lockedWorld, w @ [(Capture, ''git'' # getHelperArgs None)]))" for w
    by (simp add: run_def toyRunner_def toyTool_def helper_args toyRead_def lockedWorld_def
        helperKey_def strOf_def defaultTo_def)
  have c: "run toyRunner Capture (''git'' # clearHelperArgs None) (lockedWorld, w)
             = (Fulfilled \<lparr>exitCode = 255, stdout = [],
                             stderr = ''error: could not lock config file''\<rparr>,
                (lockedWorld, w @ [(Capture, ''git'' # clearHelperArgs None)]))" for w
    by (simp add: run_def toyRunner_def toyTool_def helper_args toyWrite_def lockedWorld_def
        helperKey_def strOf_def defaultTo_def)
  have a: "run toyRunner Capture (''git'' # addHelperArgs None ''/usr/bin/glab'') (lockedWorld, w)
             = (Fulfilled \<lparr>exitCode = 255, stdout = [],
                             stderr = ''error: could not lock config file''\<rparr>,
                (lockedWorld, w @ [(Capture, ''git'' # addHelperArgs None ''/usr/bin/glab'')]))"
    for w
    by (simp add: run_def toyRunner_def toyTool_def helper_args toyWrite_def lockedWorld_def
        helperKey_def strOf_def defaultTo_def)
  have r: "\<exists>e. fst (getGlabPath_spawn failingSpawner ''linux'' ((), [])) = Rejected e"
    by (simp add: getGlabPath_spawn_def async_defs execCommand_def failingSpawner_def orZero_def)
  note t = setup_returns_false_iff [of toyRunner "''linux''" None False "(lockedWorld, [])"
      failingSpawner "''linux''" None False "((), [])"]
  have x: "fst (runGlabAuthSetupGit toyRunner ''linux'' None False (lockedWorld, []))
             = Fulfilled False"
    unfolding t [THEN conjunct2, THEN conjunct1]
    by (simp add: l g c a failed_def configured_def)
  have y: "fst (runGlabAuthSetupGit_spawn failingSpawner ''linux'' None False ((), []))
             = Fulfilled False"
    unfolding t [THEN conjunct2, THEN conjunct2, THEN conjunct2]
    using r by (rule disjI1)
  show ?thesis
    using x y r by (simp add: l a failed_def)
qed

section \<open>The arguments of the login\<close>

lemma truthyS_None: "truthyS None = False"
  by (simp add: truthyS_def)

lemma buildGlabAuthLoginArgs_suffix:
  "truthyS (jobToken options) \<or> truthyS (token options) \<or> stdin options \<Longrightarrow>
   buildGlabAuthLoginArgs options =
     buildGlabAuthLoginArgs (options\<lparr>jobToken := None, token := None, stdin := False\<rparr>)
     @ (if truthyS (jobToken options) then [''--job-token'', strOf (jobToken options)]
        else if truthyS (token options) then [''--token'', strOf (token options)]
        else [''--stdin''])"
  by (cases "truthyS (jobToken options)"; cases "truthyS (token options)"; cases "stdin options";
      simp add: buildGlabAuthLoginArgs_def Let_def truthyS_None split del: if_split cong: if_cong)

lemma loginArgs_suffix:
  "truthyS (jobToken options) \<or> truthyS (token options) \<or> stdin options \<Longrightarrow>
      loginArgs options =
        loginArgs (options\<lparr>jobToken := None, token := None, stdin := False\<rparr>)
        @ (if truthyS (jobToken options) then [''--job-token'', strOf (jobToken options)]
           else if truthyS (token options) then [''--token'', strOf (token options)]
           else [''--stdin''])"
  by (cases "truthyS (jobToken options)"; cases "truthyS (token options)"; cases "stdin options";
      simp add: loginArgs_def buildGlabAuthLoginArgs_def Let_def truthyS_None split del: if_split cong: if_cong)

lemma loginArgs_spawn_suffix:
  "loginArgs_spawn options =
       loginArgs_spawn (options\<lparr>token := None\<rparr>)
       @ (if truthyS (token options) then [''--stdin''] else [])"
  by (cases "truthyS (token options)";
      simp add: loginArgs_spawn_def Let_def truthyS_None split del: if_split cong: if_cong)

lemma loginArgs_spawn_ignores:
  "loginArgs_spawn (options\<lparr>jobToken := j, stdin := b\<rparr>) = loginArgs_spawn options"
  by (simp add: loginArgs_spawn_def Let_def split del: if_split cong: if_cong)

text \<open>
  Claim C3, as stated, fails on the \<^verbatim>\<open>node:child_process\<close> revision of
  \<^verbatim>\<open>runGlabAuthLogin\<close>: with a token set and no job token its argument vector ends with
  \<^verbatim>\<open>--stdin\<close> and has no \<^verbatim>\<open>--token\<close>, and the token goes to the child's stdin.
\<close>

theorem login_spawn_token_gives_stdin:
  "loginArgs_spawn tokenOnly
     = [''auth'', ''login'', ''--hostname'', ''gitlab.com'', ''--git-protocol'', ''https'',
        ''--stdin'']
   \<and> ''--token'' \<notin> set (loginArgs_spawn tokenOnly)
   \<and> snd (snd (runGlabAuthLogin_spawn silentSpawner tokenOnly ((), [])))
       = [(Inherit (Some (''glpat-abc'' @ [CHR 0x0A])), ''glab'' # loginArgs_spawn tokenOnly)]"
  by (simp add: loginArgs_spawn_def tokenOnly_def Let_def truthyS_def strOf_def defaultTo_def
      runGlabAuthLogin_spawn_def execInteractiveCommand_def async_defs silentSpawner_def
      orZero_def)

text \<open>
  Claim C3, amended. In the command-stream revision, for options in which one of
  \<open>jobToken\<close>, \<open>token\<close> (present and not empty) or \<open>stdin\<close> is set, the argument vector of
  \<^verbatim>\<open>glab auth login\<close> is the vector built from the other options followed by exactly one of
  \<^verbatim>\<open>--job-token <value>\<close>, \<^verbatim>\<open>--token <value>\<close> and \<^verbatim>\<open>--stdin\<close>, chosen with the precedence
  jobToken over token over stdin; this holds for \<^verbatim>\<open>buildGlabAuthLoginArgs\<close> and for the
  vector \<^verbatim>\<open>runGlabAuthLogin\<close> runs. In the \<^verbatim>\<open>node:child_process\<close> revision the only such
  flag is \<^verbatim>\<open>--stdin\<close>, appended exactly when a token is set, the token and a newline being
  written to the child's stdin; \<open>jobToken\<close> and \<open>stdin\<close> are not read there.
\<close>

theorem login_auth_flag:
  "(truthyS (jobToken options) \<or> truthyS (token options) \<or> stdin options \<longrightarrow>
      buildGlabAuthLoginArgs options =
        buildGlabAuthLoginArgs (options\<lparr>jobToken := None, token := None, stdin := False\<rparr>)
        @ (if truthyS (jobToken options) then [''--job-token'', strOf (jobToken options)]
           else if truthyS (token options) then [''--token'', strOf (token options)]
           else [''--stdin''])
      \<and> loginArgs options =
        loginArgs (options\<lparr>jobToken := None, token := None, stdin := False\<rparr>)
        @ (if truthyS (jobToken options) then [''--job-token'', strOf (jobToken options)]
           else if truthyS (token options) then [''--token'', strOf (token options)]
           else [''--stdin'']))
   \<and> snd (snd (runGlabAuthLogin ex options s))
       = snd s @ [(Mirror (stdin options), ''glab'' # loginArgs options)]
   \<and> loginArgs_spawn options =
       loginArgs_spawn (options\<lparr>token := None\<rparr>)
       @ (if truthyS (token options) then [''--stdin''] else [])
   \<and> loginArgs_spawn (options\<lparr>jobToken := j, stdin := b\<rparr>) = loginArgs_spawn options
   \<and> snd (snd (runGlabAuthLogin_spawn sp options s'))
       = snd s' @ [(if truthyS (token options)
                    then Inherit (Some (strOf (token options) @ [CHR 0x0A]))
                    else Inherit None,
                    ''glab'' # loginArgs_spawn options)]"
proof -
  have a: "snd (snd (runGlabAuthLogin ex options s))
       = snd s @ [(Mirror (stdin options), ''glab'' # loginArgs options)]"
    by (simp add: runGlabAuthLogin_def Let_def async_defs run_def
        split: prod.splits promise.splits)
  have b: "snd (snd (runGlabAuthLogin_spawn sp options s'))
       = snd s' @ [(if truthyS (token options)
                    then Inherit (Some (strOf (token options) @ [CHR 0x0A]))
                    else Inherit None,
                    ''glab'' # loginArgs_spawn options)]"
    by (simp add: runGlabAuthLogin_spawn_def Let_def async_defs execInteractiveCommand_def
        split: prod.splits promise.splits)
  show ?thesis
    by (intro conjI impI a b buildGlabAuthLoginArgs_suffix loginArgs_suffix
        loginArgs_spawn_suffix loginArgs_spawn_ignores)
qed

theorem login_auth_flag_witness:
  "(truthyS (jobToken tokenOnly) \<or> truthyS (token tokenOnly) \<or> stdin tokenOnly)
   \<and> loginArgs tokenOnly
       = [''auth'', ''login'', ''--hostname'', ''gitlab.com'', ''--git-protocol'', ''https'',
          ''--api-protocol'', ''https'', ''--token'', ''glpat-abc'']"
proof -
  have h: "truthyS (jobToken tokenOnly) \<or> truthyS (token tokenOnly) \<or> stdin tokenOnly"
    by (simp add: tokenOnly_def truthyS_def)
  have p: "loginArgs (tokenOnly\<lparr>jobToken := None, token := None, stdin := False\<rparr>)
       = [''auth'', ''login'', ''--hostname'', ''gitlab.com'', ''--git-protocol'', ''https'',
          ''--api-protocol'', ''https'']"
    by (simp add: loginArgs_def buildGlabAuthLoginArgs_def tokenOnly_def truthyS_def
        strOf_def defaultTo_def)
  have "loginArgs tokenOnly =
        loginArgs (tokenOnly\<lparr>jobToken := None, token := None, stdin := False\<rparr>)
        @ (if truthyS (jobToken tokenOnly) then [''--job-token'', strOf (jobToken tokenOnly)]
           else if truthyS (token tokenOnly) then [''--token'', strOf (token tokenOnly)]
           else [''--stdin''])"
    using login_auth_flag [where options = tokenOnly and ex = failingRunner and s = "((), [])"
        and sp = failingSpawner and s' = "((), [])" and j = None and b = False] h
    by blast
  then show ?thesis
    using h by (simp add: p) (simp add: tokenOnly_def truthyS_def strOf_def)
qed

section \<open>Reading the user record\<close>

lemma run_fst: "fst (run ex io argv s) = fst (ex (fst s) (io, argv))"
  by (simp add: run_def split: prod.splits)

lemma run_snd: "snd (run ex io argv s) = (snd (ex (fst s) (io, argv)), snd s @ [(io, argv)])"
  by (simp add: run_def split: prod.splits)

lemma run_Fulfilled:
  assumes "fst (run ex io argv s) = Fulfilled r"
  obtains s1 where "run ex io argv s = (Fulfilled r, s1)"
  using assms by (cases "run ex io argv s") simp

lemma execCommand_Fulfilled:
  assumes "fst (execCommand sp command args s) = Fulfilled r"
  obtains s1 where "execCommand sp command args s = (Fulfilled r, s1)"
  using assms by (cases "execCommand sp command args s") simp

lemma noUsername_noEmail: "noUsernameMessage \<noteq> noEmailMessage"
  by (simp add: noUsernameMessage_def noEmailMessage_def)

lemma username_never_empty:
  "fst (getGitLabUsername parseJSON ex host s) \<noteq> Fulfilled (JStr [])"
  by (auto simp add: getGitLabUsername_def async_defs
      split: prod.splits promise.splits sum.splits if_splits)

lemma email_never_empty:
  "fst (getGitLabEmail parseJSON ex host s) \<noteq> Fulfilled (JStr [])"
  by (auto simp add: getGitLabEmail_def async_defs
      split: prod.splits promise.splits sum.splits if_splits)

lemma userInfo_never_empty:
  "fst (getGitLabUserInfo parseJSON ex host s) = Fulfilled info \<Longrightarrow>
   username info \<noteq> JStr [] \<and> email info \<noteq> JStr []"
  by (auto simp add: getGitLabUserInfo_def async_defs
      split: prod.splits promise.splits sum.splits if_splits)

lemma email_spawn_never_empty:
  "fst (getGitLabEmail_spawn sp host s) \<noteq> Fulfilled []"
  by (auto simp add: getGitLabEmail_spawn_def async_defs
      split: prod.splits promise.splits if_splits)

lemma record_fields:
  assumes "fst (run ex Capture (''glab'' # [''api'', ''user''] @ hostnameArgs host) s) = Fulfilled r"
    and "exitCode r = 0"
    and "parseJSON (trim (stdout r)) = Inr (JObj kvs)"
  shows "map_of (rev kvs) ''username'' \<in> {None, Some (JStr [])} \<Longrightarrow>
           fst (getGitLabUsername parseJSON ex host s) = Rejected noUsernameMessage
           \<and> fst (getGitLabUserInfo parseJSON ex host s) = Rejected noUsernameMessage"
    and "map_of (rev kvs) ''email'' \<in> {None, Some (JStr [])} \<Longrightarrow>
           fst (getGitLabEmail parseJSON ex host s) = Rejected noEmailMessage
           \<and> fst (getGitLabUserInfo parseJSON ex host s)
               = Rejected (if truthy (case map_of (rev kvs) ''username'' of
                                         None \<Rightarrow> JUndefined | Some v \<Rightarrow> v)
                           then noEmailMessage else noUsernameMessage)"
proof -
  obtain s1 where
    "run ex Capture (''glab'' # [''api'', ''user''] @ hostnameArgs host) s = (Fulfilled r, s1)"
    using assms(1) by (rule run_Fulfilled)
  then show
    "map_of (rev kvs) ''username'' \<in> {None, Some (JStr [])} \<Longrightarrow>
           fst (getGitLabUsername parseJSON ex host s) = Rejected noUsernameMessage
           \<and> fst (getGitLabUserInfo parseJSON ex host s) = Rejected noUsernameMessage"
    and "map_of (rev kvs) ''email'' \<in> {None, Some (JStr [])} \<Longrightarrow>
           fst (getGitLabEmail parseJSON ex host s) = Rejected noEmailMessage
           \<and> fst (getGitLabUserInfo parseJSON ex host s)
               = Rejected (if truthy (case map_of (rev kvs) ''username'' of
                                         None \<Rightarrow> JUndefined | Some v \<Rightarrow> v)
                           then noEmailMessage else noUsernameMessage)"
    using assms(2,3)
    by (auto simp add: getGitLabUsername_def getGitLabEmail_def getGitLabUserInfo_def async_defs
        getProp_def split: option.splits)
qed

text \<open>
  Claim C2, as stated, fails. For the record \<^verbatim>\<open>{}\<close>, whose email is missing,
  \<^verbatim>\<open>getGitLabUserInfo\<close> raises the error about the username, which it tests first, and not
  the one about the primary email. And \<^verbatim>\<open>getGitLabUsername\<close> of the
  \<^verbatim>\<open>node:child_process\<close> revision returns the output of
  \<^verbatim>\<open>glab api user --jq .username\<close> as it is: the empty string when that is empty.
\<close>

theorem empty_record_and_empty_jq_output:
  "fst (getGitLabUserInfo sampleParse (printingRunner ''{}'') None ((), []))
     = Rejected noUsernameMessage
   \<and> noUsernameMessage \<noteq> noEmailMessage
   \<and> fst (getGitLabUsername_spawn silentSpawner None ((), [])) = Fulfilled []"
proof -
  have "trim ''{}'' = ''{}''"
    by (simp add: trim_def isSpace_def)
  then have "fst (getGitLabUserInfo sampleParse (printingRunner ''{}'') None ((), []))
     = Rejected noUsernameMessage"
    by (simp add: getGitLabUserInfo_def async_defs run_def printingRunner_def sampleParse_def
        adaJson_def quoted_def getProp_def)
  moreover have "fst (getGitLabUsername_spawn silentSpawner None ((), [])) = Fulfilled []"
    by (simp add: getGitLabUsername_spawn_def async_defs execCommand_def silentSpawner_def
        orZero_def trim_def)
  ultimately show ?thesis
    using noUsername_noEmail by simp
qed

text \<open>
  Claim C2, amended. In the command-stream revision, when the fetch exits with code 0 and its
  output parses to a record: if \<open>username\<close> is missing or the empty string,
  \<^verbatim>\<open>getGitLabUsername\<close> and \<^verbatim>\<open>getGitLabUserInfo\<close> raise the no-username error; if \<open>email\<close>
  is missing or the empty string, \<^verbatim>\<open>getGitLabEmail\<close> raises the no-primary-email error, and
  \<^verbatim>\<open>getGitLabUserInfo\<close> raises it too when the username is usable, and the no-username error
  otherwise. None of the three ever returns an empty string for a field. In the
  \<^verbatim>\<open>node:child_process\<close> revision \<^verbatim>\<open>getGitLabEmail\<close> raises the no-primary-email error on
  empty output and never returns an empty string, while \<^verbatim>\<open>getGitLabUsername\<close> returns the
  output of a successful query unchanged.
\<close>

theorem missing_fields_raise:
  "(fst (run ex Capture (''glab'' # [''api'', ''user''] @ hostnameArgs host) s) = Fulfilled r
    \<and> exitCode r = 0 \<and> parseJSON (trim (stdout r)) = Inr (JObj kvs) \<longrightarrow>
      (map_of (rev kvs) ''username'' \<in> {None, Some (JStr [])} \<longrightarrow>
         fst (getGitLabUsername parseJSON ex host s) = Rejected noUsernameMessage
         \<and> fst (getGitLabUserInfo parseJSON ex host s) = Rejected noUsernameMessage)
      \<and> (map_of (rev kvs) ''email'' \<in> {None, Some (JStr [])} \<longrightarrow>
         fst (getGitLabEmail parseJSON ex host s) = Rejected noEmailMessage
         \<and> fst (getGitLabUserInfo parseJSON ex host s)
             = Rejected (if truthy (case map_of (rev kvs) ''username'' of
                                       None \<Rightarrow> JUndefined | Some v \<Rightarrow> v)
                         then noEmailMessage else noUsernameMessage)))
   \<and> fst (getGitLabUsername parseJSON ex host s) \<noteq> Fulfilled (JStr [])
   \<and> fst (getGitLabEmail parseJSON ex host s) \<noteq> Fulfilled (JStr [])
   \<and> (\<forall>info. fst (getGitLabUserInfo parseJSON ex host s) = Fulfilled info \<longrightarrow>
         username info \<noteq> JStr [] \<and> email info \<noteq> JStr [])
   \<and> (fst (execCommand sp ''glab'' ([''api'', ''user'', ''--jq'', ''.email''] @ hostnameArgs host') s')
         = Fulfilled r' \<and> exitCode r' = 0 \<and> stdout r' = [] \<longrightarrow>
       fst (getGitLabEmail_spawn sp host' s') = Rejected noEmailMessage)
   \<and> fst (getGitLabEmail_spawn sp host' s') \<noteq> Fulfilled []
   \<and> (fst (execCommand sp ''glab'' ([''api'', ''user'', ''--jq'', ''.username''] @ hostnameArgs host') s')
         = Fulfilled r' \<and> exitCode r' = 0 \<longrightarrow>
       fst (getGitLabUsername_spawn sp host' s') = Fulfilled (stdout r'))"
proof -
  have a: "fst (execCommand sp ''glab'' ([''api'', ''user'', ''--jq'', ''.email''] @ hostnameArgs host') s')
         = Fulfilled r' \<and> exitCode r' = 0 \<and> stdout r' = [] \<longrightarrow>
       fst (getGitLabEmail_spawn sp host' s') = Rejected noEmailMessage"
    by (auto elim!: execCommand_Fulfilled simp add: getGitLabEmail_spawn_def async_defs)
  have b: "fst (execCommand sp ''glab'' ([''api'', ''user'', ''--jq'', ''.username''] @ hostnameArgs host') s')
         = Fulfilled r' \<and> exitCode r' = 0 \<longrightarrow>
       fst (getGitLabUsername_spawn sp host' s') = Fulfilled (stdout r')"
    by (auto elim!: execCommand_Fulfilled simp add: getGitLabUsername_spawn_def async_defs)
  show ?thesis
    using record_fields [of ex host s r parseJSON kvs] a b
      username_never_empty [of parseJSON ex host s] email_never_empty [of parseJSON ex host s]
      userInfo_never_empty [of parseJSON ex host s] email_spawn_never_empty [of sp host' s']
    by blast
qed

theorem missing_fields_raise_witness:
  "fst (run (printingRunner ''{}'') Capture (''glab'' # [''api'', ''user''] @ hostnameArgs None)
         ((), []))
     = Fulfilled \<lparr>exitCode = 0, stdout = ''{}'', stderr = []\<rparr>
   \<and> sampleParse (trim ''{}'') = Inr (JObj [])
   \<and> fst (getGitLabUsername sampleParse (printingRunner ''{}'') None ((), []))
       = Rejected noUsernameMessage
   \<and> fst (getGitLabEmail sampleParse (printingRunner ''{}'') None ((), []))
       = Rejected noEmailMessage"
proof -
  have h1: "fst (run (printingRunner ''{}'') Capture
                  (''glab'' # [''api'', ''user''] @ hostnameArgs None) ((), []))
     = Fulfilled \<lparr>exitCode = 0, stdout = ''{}'', stderr = []\<rparr>"
    by (simp add: run_def printingRunner_def)
  have h2: "sampleParse (trim ''{}'') = Inr (JObj [])"
    by (simp add: trim_def isSpace_def sampleParse_def adaJson_def quoted_def)
  note t = missing_fields_raise [where ex = "printingRunner ''{}''" and host = None
      and s = "((), [])" and r = "\<lparr>exitCode = 0, stdout = ''{}'', stderr = []\<rparr>"
      and parseJSON = sampleParse and kvs = "[]" and sp = silentSpawner and host' = None
      and s' = "((), [])" and r' = "\<lparr>exitCode = 0, stdout = [], stderr = []\<rparr>"]
  show ?thesis
    using t [THEN conjunct1] h1 h2 by simp
qed

section \<open>Output that is not JSON\<close>

lemma startsWith_append: "startsWith (p @ s) p"
  by (induction p) simp_all

lemma includesStr_Nil: "includesStr s []"
  by (cases s) simp_all

lemma includesStr_prefix: "includesStr (sub @ s) sub"
  by (cases sub) (simp_all add: includesStr_Nil startsWith_append)

lemma includesStr_append: "includesStr s sub \<Longrightarrow> includesStr (p @ s) sub"
  by (induction p) (auto simp: includesStr_Nil)

lemma parseFailure_includes:
  "includesStr (parseFailure parseError raw) parseError"
  "includesStr (parseFailure parseError raw) raw"
proof -
  show "includesStr (parseFailure parseError raw) parseError"
    unfolding parseFailure_def by (intro includesStr_append includesStr_prefix)
  have "includesStr (raw @ []) raw"
    by (rule includesStr_prefix)
  then have "includesStr raw raw" by simp
  then have "includesStr ((''Failed to parse GitLab user data: '' @ parseError @ ''. Raw output: '') @ raw) raw"
    by (rule includesStr_append)
  then show "includesStr (parseFailure parseError raw) raw"
    by (simp add: parseFailure_def)
qed

lemma fetch_nonzero_exit:
  assumes "fst (run ex Capture (''glab'' # [''api'', ''user''] @ hostnameArgs host) s) = Fulfilled r"
    and "exitCode r \<noteq> 0"
  shows "fst (getGitLabUsername parseJSON ex host s)
           = Rejected (''Failed to get GitLab username: '' @ stderr r)"
    and "fst (getGitLabEmail parseJSON ex host s)
           = Rejected (''Failed to get GitLab email: '' @ stderr r)"
    and "fst (getGitLabUserInfo parseJSON ex host s)
           = Rejected (''Failed to get GitLab user info: '' @ stderr r)"
  using assms
  by (auto elim!: run_Fulfilled
      simp add: getGitLabUsername_def getGitLabEmail_def getGitLabUserInfo_def async_defs)

lemma fetch_parse_error:
  assumes "fst (run ex Capture (''glab'' # [''api'', ''user''] @ hostnameArgs host) s) = Fulfilled r"
    and "exitCode r = 0" and "parseJSON (trim (stdout r)) = Inl parseError"
  shows "fst (getGitLabUsername parseJSON ex host s)
           = Rejected (parseFailure parseError (stdout r))"
    and "fst (getGitLabEmail parseJSON ex host s)
           = Rejected (parseFailure parseError (stdout r))"
    and "fst (getGitLabUserInfo parseJSON ex host s)
           = Rejected (parseFailure parseError (stdout r))"
  using assms
  by (auto elim!: run_Fulfilled
      simp add: getGitLabUsername_def getGitLabEmail_def getGitLabUserInfo_def async_defs)

text \<open>
  Claim C9, as stated, fails. The error that embeds the parser's message and the raw output
  is raised only when the fetch exited with code 0 and \<^verbatim>\<open>JSON.parse\<close> rejected the output
  after trimming. A fetch that prints an HTML page and exits with code 1 raises
  \<^verbatim>\<open>Failed to get GitLab ...: <stderr>\<close>, with neither the page nor a parser's message in
  it. And output that is not valid JSON only by white space that \<^verbatim>\<open>trim\<close> removes and
  JSON does not allow, here a vertical tab before the record, raises nothing: the record is
  read.
\<close>

theorem output_not_json_without_parse_error:
  "sampleParse ''<html>'' = Inl ''Unexpected token''
   \<and> fst (getGitLabUsername sampleParse errorRunner None ((), []))
       = Rejected ''Failed to get GitLab username: glab: 401 Unauthorized''
   \<and> fst (getGitLabEmail sampleParse errorRunner None ((), []))
       = Rejected ''Failed to get GitLab email: glab: 401 Unauthorized''
   \<and> fst (getGitLabUserInfo sampleParse errorRunner None ((), []))
       = Rejected ''Failed to get GitLab user info: glab: 401 Unauthorized''
   \<and> \<not> includesStr ''Failed to get GitLab user info: glab: 401 Unauthorized'' ''<html>''
   \<and> \<not> includesStr ''Failed to get GitLab user info: glab: 401 Unauthorized''
         ''Unexpected token''
   \<and> sampleParse tabbedJson = Inl ''Unexpected token''
   \<and> fst (getGitLabUsername sampleParse (printingRunner tabbedJson) None ((), []))
       = Fulfilled (JStr ''ada'')
   \<and> fst (getGitLabEmail sampleParse (printingRunner tabbedJson) None ((), []))
       = Fulfilled (JStr ''ada@example.com'')
   \<and> fst (getGitLabUserInfo sampleParse (printingRunner tabbedJson) None ((), []))
       = Fulfilled \<lparr>username = JStr ''ada'', email = JStr ''ada@example.com''\<rparr>"
proof -
  have p1: "sampleParse ''<html>'' = Inl ''Unexpected token''"
    by (simp add: sampleParse_def adaJson_def quoted_def)
  have p2: "sampleParse tabbedJson = Inl ''Unexpected token''"
    by (simp add: sampleParse_def tabbedJson_def adaJson_def quoted_def)
  have tr: "trim tabbedJson = adaJson"
    by (simp add: trim_def isSpace_def tabbedJson_def adaJson_def quoted_def)
  have p3: "sampleParse adaJson
     = Inr (JObj [(''username'', JStr ''ada''), (''email'', JStr ''ada@example.com'')])"
    by (simp add: sampleParse_def)
  have e: "fst (run errorRunner Capture (''glab'' # [''api'', ''user''] @ hostnameArgs None) ((), []))
     = Fulfilled \<lparr>exitCode = 1, stdout = ''<html>'', stderr = ''glab: 401 Unauthorized''\<rparr>"
    by (simp add: run_def errorRunner_def)
  have e1: "fst (getGitLabUsername sampleParse errorRunner None ((), []))
       = Rejected ''Failed to get GitLab username: glab: 401 Unauthorized''"
    using fetch_nonzero_exit(1) [OF e, where parseJSON = sampleParse] by simp
  have e2: "fst (getGitLabEmail sampleParse errorRunner None ((), []))
       = Rejected ''Failed to get GitLab email: glab: 401 Unauthorized''"
    using fetch_nonzero_exit(2) [OF e, where parseJSON = sampleParse] by simp
  have e3: "fst (getGitLabUserInfo sampleParse errorRunner None ((), []))
       = Rejected ''Failed to get GitLab user info: glab: 401 Unauthorized''"
    using fetch_nonzero_exit(3) [OF e, where parseJSON = sampleParse] by simp
  have n1: "\<not> includesStr ''Failed to get GitLab user info: glab: 401 Unauthorized'' ''<html>''"
    by simp
  have n2: "\<not> includesStr ''Failed to get GitLab user info: glab: 401 Unauthorized''
         ''Unexpected token''"
    by simp
  have f1: "fst (getGitLabUsername sampleParse (printingRunner tabbedJson) None ((), []))
       = Fulfilled (JStr ''ada'')"
    by (simp add: getGitLabUsername_def async_defs run_def printingRunner_def tr p3 getProp_def)
  have f2: "fst (getGitLabEmail sampleParse (printingRunner tabbedJson) None ((), []))
       = Fulfilled (JStr ''ada@example.com'')"
    by (simp add: getGitLabEmail_def async_defs run_def printingRunner_def tr p3 getProp_def)
  have f3: "fst (getGitLabUserInfo sampleParse (printingRunner tabbedJson) None ((), []))
       = Fulfilled \<lparr>username = JStr ''ada'', email = JStr ''ada@example.com''\<rparr>"
    by (simp add: getGitLabUserInfo_def async_defs run_def printingRunner_def tr p3 getProp_def)
  show ?thesis
    using p1 e1 e2 e3 n1 n2 p2 f1 f2 f3 by (intro conjI)
qed

text \<open>
  Claim C9, amended. When the fetch exits with code 0 and its output, trimmed, is not valid
  JSON, so that \<^verbatim>\<open>JSON.parse\<close> throws with some message, then \<^verbatim>\<open>getGitLabUsername\<close>,
  \<^verbatim>\<open>getGitLabEmail\<close> and \<^verbatim>\<open>getGitLabUserInfo\<close> raise an error whose message includes the
  parser's message and the raw output, untrimmed. When the fetch exits with another code, they
  raise the error of the failed command, whatever the output.
\<close>

theorem malformed_json_raises:
  "(fst (run ex Capture (''glab'' # [''api'', ''user''] @ hostnameArgs host) s) = Fulfilled r
    \<and> exitCode r = 0 \<and> parseJSON (trim (stdout r)) = Inl parseError \<longrightarrow>
     fst (getGitLabUsername parseJSON ex host s) = Rejected (parseFailure parseError (stdout r))
     \<and> fst (getGitLabEmail parseJSON ex host s) = Rejected (parseFailure parseError (stdout r))
     \<and> fst (getGitLabUserInfo parseJSON ex host s) = Rejected (parseFailure parseError (stdout r))
     \<and> parseFailure parseError (stdout r)
         = ''Failed to parse GitLab user data: '' @ parseError @ ''. Raw output: '' @ stdout r
     \<and> includesStr (parseFailure parseError (stdout r)) parseError
     \<and> includesStr (parseFailure parseError (stdout r)) (stdout r))
   \<and> (fst (run ex Capture (''glab'' # [''api'', ''user''] @ hostnameArgs host) s) = Fulfilled r
      \<and> exitCode r \<noteq> 0 \<longrightarrow>
       fst (getGitLabUsername parseJSON ex host s)
         = Rejected (''Failed to get GitLab username: '' @ stderr r)
       \<and> fst (getGitLabEmail parseJSON ex host s)
           = Rejected (''Failed to get GitLab email: '' @ stderr r)
       \<and> fst (getGitLabUserInfo parseJSON ex host s)
           = Rejected (''Failed to get GitLab user info: '' @ stderr r))"
proof -
  have A: "fst (getGitLabUsername parseJSON ex host s) = Rejected (parseFailure parseError (stdout r))
     \<and> fst (getGitLabEmail parseJSON ex host s) = Rejected (parseFailure parseError (stdout r))
     \<and> fst (getGitLabUserInfo parseJSON ex host s) = Rejected (parseFailure parseError (stdout r))
     \<and> parseFailure parseError (stdout r)
         = ''Failed to parse GitLab user data: '' @ parseError @ ''. Raw output: '' @ stdout r
     \<and> includesStr (parseFailure parseError (stdout r)) parseError
     \<and> includesStr (parseFailure parseError (stdout r)) (stdout r)"
    if a: "fst (run ex Capture (''glab'' # [''api'', ''user''] @ hostnameArgs host) s) = Fulfilled r"
      and b: "exitCode r = 0" and c: "parseJSON (trim (stdout r)) = Inl parseError"
  proof (intro conjI)
    show "fst (getGitLabUsername parseJSON ex host s)
            = Rejected (parseFailure parseError (stdout r))"
      using a b c by (rule fetch_parse_error(1))
    show "fst (getGitLabEmail parseJSON ex host s)
            = Rejected (parseFailure parseError (stdout r))"
      using a b c by (rule fetch_parse_error(2))
    show "fst (getGitLabUserInfo parseJSON ex host s)
            = Rejected (parseFailure parseError (stdout r))"
      using a b c by (rule fetch_parse_error(3))
    show "parseFailure parseError (stdout r)
           = ''Failed to parse GitLab user data: '' @ parseError @ ''. Raw output: '' @ stdout r"
      by (simp add: parseFailure_def)
    show "includesStr (parseFailure parseError (stdout r)) parseError"
      by (rule parseFailure_includes)
    show "includesStr (parseFailure parseError (stdout r)) (stdout r)"
      by (rule parseFailure_includes)
  qed
  have B: "fst (getGitLabUsername parseJSON ex host s)
         = Rejected (''Failed to get GitLab username: '' @ stderr r)
       \<and> fst (getGitLabEmail parseJSON ex host s)
           = Rejected (''Failed to get GitLab email: '' @ stderr r)
       \<and> fst (getGitLabUserInfo parseJSON ex host s)
           = Rejected (''Failed to get GitLab user info: '' @ stderr r)"
    if a: "fst (run ex Capture (''glab'' # [''api'', ''user''] @ hostnameArgs host) s) = Fulfilled r"
      and b: "exitCode r \<noteq> 0"
  proof (intro conjI)
    show "fst (getGitLabUsername parseJSON ex host s)
           = Rejected (''Failed to get GitLab username: '' @ stderr r)"
      using a b by (rule fetch_nonzero_exit(1))
    show "fst (getGitLabEmail parseJSON ex host s)
           = Rejected (''Failed to get GitLab email: '' @ stderr r)"
      using a b by (rule fetch_nonzero_exit(2))
    show "fst (getGitLabUserInfo parseJSON ex host s)
           = Rejected (''Failed to get GitLab user info: '' @ stderr r)"
      using a b by (rule fetch_nonzero_exit(3))
  qed
  show ?thesis
    using A B by blast
qed

theorem malformed_json_raises_witness:
  "fst (run (printingRunner ''<html>'') Capture
          (''glab'' # [''api'', ''user''] @ hostnameArgs None) ((), []))
     = Fulfilled \<lparr>exitCode = 0, stdout = ''<html>'', stderr = []\<rparr>
   \<and> sampleParse (trim ''<html>'') = Inl ''Unexpected token''
   \<and> fst (getGitLabUserInfo sampleParse (printingRunner ''<html>'') None ((), []))
       = Rejected ''Failed to parse GitLab user data: Unexpected token. Raw output: <html>''
   \<and> fst (run errorRunner Capture (''glab'' # [''api'', ''user''] @ hostnameArgs None) ((), []))
       = Fulfilled \<lparr>exitCode = 1, stdout = ''<html>'', stderr = ''glab: 401 Unauthorized''\<rparr>
   \<and> fst (getGitLabUserInfo sampleParse errorRunner None ((), []))
       = Rejected ''Failed to get GitLab user info: glab: 401 Unauthorized''"
proof -
  have h1: "fst (run (printingRunner ''<html>'') Capture
          (''glab'' # [''api'', ''user''] @ hostnameArgs None) ((), []))
     = Fulfilled \<lparr>exitCode = 0, stdout = ''<html>'', stderr = []\<rparr>"
    by (simp add: run_def printingRunner_def)
  have h2: "sampleParse (trim ''<html>'') = Inl ''Unexpected token''"
    by (simp add: trim_def isSpace_def sampleParse_def adaJson_def quoted_def)
  have h3: "fst (run errorRunner Capture (''glab'' # [''api'', ''user''] @ hostnameArgs None) ((), []))
       = Fulfilled \<lparr>exitCode = 1, stdout = ''<html>'', stderr = ''glab: 401 Unauthorized''\<rparr>"
    by (simp add: run_def errorRunner_def)
  have r1: "fst (getGitLabUserInfo sampleParse (printingRunner ''<html>'') None ((), []))
       = Rejected ''Failed to parse GitLab user data: Unexpected token. Raw output: <html>''"
    using malformed_json_raises [where ex = "printingRunner ''<html>''" and host = None
        and s = "((), [])" and r = "\<lparr>exitCode = 0, stdout = ''<html>'', stderr = []\<rparr>"
        and parseJSON = sampleParse and parseError = "''Unexpected token''"] h1 h2
    by (simp add: parseFailure_def)
  have r2: "fst (getGitLabUserInfo sampleParse errorRunner None ((), []))
       = Rejected ''Failed to get GitLab user info: glab: 401 Unauthorized''"
    using malformed_json_raises [where ex = errorRunner and host = None and s = "((), [])"
        and r = "\<lparr>exitCode = 1, stdout = ''<html>'', stderr = ''glab: 401 Unauthorized''\<rparr>"
        and parseJSON = sampleParse] h3
    by simp
  show ?thesis
    using h1 h2 r1 h3 r2 by (intro conjI)
qed

section \<open>Resolving the path of the executable\<close>

lemma splitOn_not_Nil: "splitOn d s \<noteq> []"
  by (induction s) (simp_all split: list.splits)

lemma hd_splitOn: "hd (splitOn d s) = takeWhile (\<lambda>c. c \<noteq> d) s"
  by (induction s) (auto simp add: splitOn_not_Nil split: list.splits)

lemma notFound_includes:
  "includesStr notFoundMessage ''not found''"
  "includesStr notFoundMessage ''https://gitlab.com/gitlab-org/cli#installation''"
proof -
  have "includesStr (''glab CLI '' @ (''not found'' @ ''. Please install glab: https://gitlab.com/gitlab-org/cli#installation'')) ''not found''"
    by (intro includesStr_append includesStr_prefix)
  then show "includesStr notFoundMessage ''not found''"
    by (simp add: notFoundMessage_def)
  have "includesStr (''glab CLI not found. Please install glab: '' @ (''https://gitlab.com/gitlab-org/cli#installation'' @ [])) ''https://gitlab.com/gitlab-org/cli#installation''"
    by (intro includesStr_append includesStr_prefix)
  then show "includesStr notFoundMessage ''https://gitlab.com/gitlab-org/cli#installation''"
    by (simp add: notFoundMessage_def)
qed

lemma getGlabPath_result:
  "fst (run ex Capture [lookupCommand platform, ''glab''] s) = Fulfilled r \<Longrightarrow>
   fst (getGlabPath ex platform s)
     = (if exitCode r \<noteq> 0 \<or> stdout r = [] then Rejected notFoundMessage
        else Fulfilled (trim (takeWhile (\<lambda>c. c \<noteq> CHR 0x0A) (stdout r))))"
  by (auto elim!: run_Fulfilled simp add: getGlabPath_def async_defs hd_splitOn notFound_includes)

lemma getGlabPath_spawn_result:
  "fst (execCommand sp (lookupCommand platform) [''glab''] s) = Fulfilled r \<Longrightarrow>
   fst (getGlabPath_spawn sp platform s)
     = (if exitCode r \<noteq> 0 \<or> stdout r = [] then Rejected notFoundMessage
        else Fulfilled (trim (takeWhile (\<lambda>c. c \<noteq> CHR 0x0A) (stdout r))))"
  by (auto elim!: execCommand_Fulfilled simp add: getGlabPath_spawn_def async_defs hd_splitOn)

text \<open>
  Claim C8, as stated, fails: what \<^verbatim>\<open>getGlabPath\<close> returns is the first line with the white
  space around it removed, which is not the first line when that is padded. With a first
  line that ends in a blank the blank is dropped, and of the first line of the output of
  \<^verbatim>\<open>where\<close>, which ends in a carriage return, the carriage return is dropped.
\<close>

theorem glab_path_is_not_the_first_line:
  "fst (getGlabPath (printingRunner paddedOutput) ''linux'' ((), [])) = Fulfilled ''/usr/bin/glab''
   \<and> takeWhile (\<lambda>c. c \<noteq> CHR 0x0A) paddedOutput = ''/usr/bin/glab ''
   \<and> fst (getGlabPath_spawn (printingSpawner whereOutput) ''win32'' ((), []))
       = Fulfilled (''C:'' @ [CHR 0x5C] @ ''glab.exe'')
   \<and> takeWhile (\<lambda>c. c \<noteq> CHR 0x0A) (trim whereOutput)
       = ''C:'' @ [CHR 0x5C] @ ''glab.exe'' @ [CHR 0x0D]"
proof -
  have a: "fst (run (printingRunner paddedOutput) Capture [lookupCommand ''linux'', ''glab''] ((), []))
             = Fulfilled \<lparr>exitCode = 0, stdout = paddedOutput, stderr = []\<rparr>"
    by (simp add: run_def printingRunner_def)
  have b: "fst (execCommand (printingSpawner whereOutput) (lookupCommand ''win32'') [''glab''] ((), []))
             = Fulfilled \<lparr>exitCode = 0, stdout = trim whereOutput, stderr = []\<rparr>"
    by (simp add: execCommand_def printingSpawner_def orZero_def trim_def)
  have c: "takeWhile (\<lambda>c. c \<noteq> CHR 0x0A) paddedOutput = ''/usr/bin/glab ''"
    by (simp add: paddedOutput_def)
  have d: "trim whereOutput = ''C:'' @ [CHR 0x5C] @ ''glab.exe'' @ [CHR 0x0D, CHR 0x0A]
     @ ''D:'' @ [CHR 0x5C] @ ''glab.exe''"
    by (simp add: whereOutput_def trim_def isSpace_def)
  have e: "takeWhile (\<lambda>c. c \<noteq> CHR 0x0A) (trim whereOutput)
       = ''C:'' @ [CHR 0x5C] @ ''glab.exe'' @ [CHR 0x0D]"
    by (simp add: d)
  have f: "trim ''/usr/bin/glab '' = ''/usr/bin/glab''"
    by (simp add: trim_def isSpace_def)
  have g: "trim (''C:'' @ [CHR 0x5C] @ ''glab.exe'' @ [CHR 0x0D]) = ''C:'' @ [CHR 0x5C] @ ''glab.exe''"
    by (simp add: trim_def isSpace_def)
  have h: "paddedOutput \<noteq> []" "trim whereOutput \<noteq> []"
    by (simp_all add: paddedOutput_def d)
  show ?thesis
    using getGlabPath_result [OF a] getGlabPath_spawn_result [OF b] h g
    by (simp add: c e f)
qed

text \<open>
  Claim C8, amended. When the lookup exits with code 0 and prints something, \<^verbatim>\<open>getGlabPath\<close>
  returns the first line of that output with leading and trailing white space removed; when
  it exits with another code or prints nothing, \<^verbatim>\<open>getGlabPath\<close> raises the not-found error,
  whose message includes the installation reference URL. This holds in both revisions.
\<close>

theorem glab_path_trimmed_first_line:
  "(fst (run ex Capture [lookupCommand platform, ''glab''] s) = Fulfilled r \<longrightarrow>
      fst (getGlabPath ex platform s)
        = (if exitCode r \<noteq> 0 \<or> stdout r = [] then Rejected notFoundMessage
           else Fulfilled (trim (takeWhile (\<lambda>c. c \<noteq> CHR 0x0A) (stdout r)))))
   \<and> (fst (execCommand sp (lookupCommand platform') [''glab''] s') = Fulfilled r' \<longrightarrow>
      fst (getGlabPath_spawn sp platform' s')
        = (if exitCode r' \<noteq> 0 \<or> stdout r' = [] then Rejected notFoundMessage
           else Fulfilled (trim (takeWhile (\<lambda>c. c \<noteq> CHR 0x0A) (stdout r')))))
   \<and> includesStr notFoundMessage ''https://gitlab.com/gitlab-org/cli#installation''"
  by (intro conjI impI getGlabPath_result getGlabPath_spawn_result notFound_includes)

theorem glab_path_trimmed_first_line_witness:
  "fst (run toyRunner Capture [lookupCommand ''linux'', ''glab''] (emptyWorld, []))
     = Fulfilled \<lparr>exitCode = 0, stdout = ''/usr/bin/glab'', stderr = []\<rparr>
   \<and> fst (getGlabPath toyRunner ''linux'' (emptyWorld, [])) = Fulfilled ''/usr/bin/glab''
   \<and> fst (execCommand failingSpawner (lookupCommand ''linux'') [''glab''] ((), []))
     = Fulfilled \<lparr>exitCode = 1, stdout = [], stderr = []\<rparr>
   \<and> fst (getGlabPath_spawn failingSpawner ''linux'' ((), [])) = Rejected notFoundMessage"
proof -
  have a: "fst (run toyRunner Capture [lookupCommand ''linux'', ''glab''] (emptyWorld, []))
     = Fulfilled \<lparr>exitCode = 0, stdout = ''/usr/bin/glab'', stderr = []\<rparr>"
    by (simp add: run_def toyRunner_def toyTool_def lookupCommand_def)
  have b: "fst (execCommand failingSpawner (lookupCommand ''linux'') [''glab''] ((), []))
     = Fulfilled \<lparr>exitCode = 1, stdout = [], stderr = []\<rparr>"
    by (simp add: execCommand_def failingSpawner_def orZero_def trim_def)
  have c: "trim ''/usr/bin/glab'' = ''/usr/bin/glab''"
    by (simp add: trim_def isSpace_def)
  note t = glab_path_trimmed_first_line [where ex = toyRunner and platform = "''linux''"
      and s = "(emptyWorld, [])" and r = "\<lparr>exitCode = 0, stdout = ''/usr/bin/glab'', stderr = []\<rparr>"
      and sp = failingSpawner and platform' = "''linux''" and s' = "((), [])"
      and r' = "\<lparr>exitCode = 1, stdout = [], stderr = []\<rparr>"]
  show ?thesis
    using t [THEN conjunct1] t [THEN conjunct2, THEN conjunct1] a b
    by (simp add: c)
qed

section \<open>Reading and verifying the git identity\<close>

lemma getGitConfig_result:
  "fst (run ex Capture [''git'', ''config'', scopeFlag scope, key] s) = Fulfilled r \<Longrightarrow>
   fst (getGitConfig ex key scope s)
     = Fulfilled (if exitCode r \<noteq> 0 then None else Some (trim (stdout r)))"
  by (auto elim!: run_Fulfilled simp add: getGitConfig_def async_defs)

lemma getGitConfig_spawn_result:
  "fst (execCommand sp ''git'' [''config'', scopeFlag scope, key] s) = Fulfilled r \<Longrightarrow>
   fst (getGitConfig_spawn sp key scope s)
     = Fulfilled (if exitCode r \<noteq> 0 then None else Some (stdout r))"
  by (auto elim!: execCommand_Fulfilled simp add: getGitConfig_spawn_def async_defs)

lemma getGitConfig_snd:
  "snd (getGitConfig ex key scope s) = snd (run ex Capture [''git'', ''config'', scopeFlag scope, key] s)"
  by (simp add: getGitConfig_def async_defs split: prod.splits promise.splits)

lemma getGitConfig_spawn_snd:
  "snd (getGitConfig_spawn sp key scope s)
     = snd (execCommand sp ''git'' [''config'', scopeFlag scope, key] s)"
  by (simp add: getGitConfig_spawn_def async_defs split: prod.splits promise.splits)

lemma getGitConfig_not_rejected:
  assumes "\<forall>w q e. fst (ex w q) \<noteq> Rejected e"
  shows "fst (getGitConfig ex key scope s) \<noteq> Rejected e"
proof -
  have "fst (run ex Capture [''git'', ''config'', scopeFlag scope, key] s) \<noteq> Rejected e'" for e'
    using assms by (simp add: run_fst)
  then show ?thesis
    by (cases "run ex Capture [''git'', ''config'', scopeFlag scope, key] s")
      (auto simp add: getGitConfig_def async_defs split: promise.splits)
qed

lemma getGitConfig_spawn_not_rejected:
  "fst (getGitConfig_spawn sp key scope s) \<noteq> Rejected e"
  using execCommand_not_rejected [of sp "''git''" "[''config'', scopeFlag scope, key]" s]
  by (cases "execCommand sp ''git'' [''config'', scopeFlag scope, key] s")
    (auto simp add: getGitConfig_spawn_def async_defs split: promise.splits)

lemma verifyGitIdentity_unfold:
  "verifyGitIdentity ex scope s =
     (case getGitConfig ex ''user.name'' scope s of
        (Fulfilled name, s1) \<Rightarrow>
          (case getGitConfig ex ''user.email'' scope s1 of
             (Fulfilled address, s2) \<Rightarrow> (Fulfilled \<lparr>username = name, email = address\<rparr>, s2)
           | (Rejected e, s2) \<Rightarrow> (Rejected e, s2)
           | (Pending, s2) \<Rightarrow> (Pending, s2))
      | (Rejected e, s1) \<Rightarrow> (Rejected e, s1)
      | (Pending, s1) \<Rightarrow> (Pending, s1))"
  by (simp add: verifyGitIdentity_def async_defs split: prod.splits promise.splits)

lemma verifyGitIdentity_spawn_unfold:
  "verifyGitIdentity_spawn sp scope s =
     (case getGitConfig_spawn sp ''user.name'' scope s of
        (Fulfilled name, s1) \<Rightarrow>
          (case getGitConfig_spawn sp ''user.email'' scope s1 of
             (Fulfilled address, s2) \<Rightarrow> (Fulfilled \<lparr>username = name, email = address\<rparr>, s2)
           | (Rejected e, s2) \<Rightarrow> (Rejected e, s2)
           | (Pending, s2) \<Rightarrow> (Pending, s2))
      | (Rejected e, s1) \<Rightarrow> (Rejected e, s1)
      | (Pending, s1) \<Rightarrow> (Pending, s1))"
  by (simp add: verifyGitIdentity_spawn_def async_defs split: prod.splits promise.splits)

lemma verifyGitIdentity_not_rejected:
  assumes "\<forall>w q e. fst (ex w q) \<noteq> Rejected e"
  shows "fst (verifyGitIdentity ex scope s) \<noteq> Rejected e"
proof -
  obtain p1 s1 where a: "getGitConfig ex ''user.name'' scope s = (p1, s1)"
    by (cases "getGitConfig ex ''user.name'' scope s")
  obtain p2 s2 where b: "getGitConfig ex ''user.email'' scope s1 = (p2, s2)"
    by (cases "getGitConfig ex ''user.email'' scope s1")
  have "p1 \<noteq> Rejected e'" "p2 \<noteq> Rejected e'" for e'
    using getGitConfig_not_rejected [OF assms, of "''user.name''" scope s e']
      getGitConfig_not_rejected [OF assms, of "''user.email''" scope s1 e'] a b
    by simp_all
  then show ?thesis
    by (cases p1; cases p2; simp add: verifyGitIdentity_unfold a b)
qed

lemma verifyGitIdentity_spawn_not_rejected:
  "fst (verifyGitIdentity_spawn sp scope s) \<noteq> Rejected e"
proof -
  obtain p1 s1 where a: "getGitConfig_spawn sp ''user.name'' scope s = (p1, s1)"
    by (cases "getGitConfig_spawn sp ''user.name'' scope s")
  obtain p2 s2 where b: "getGitConfig_spawn sp ''user.email'' scope s1 = (p2, s2)"
    by (cases "getGitConfig_spawn sp ''user.email'' scope s1")
  have "p1 \<noteq> Rejected e'" "p2 \<noteq> Rejected e'" for e'
    using getGitConfig_spawn_not_rejected [of sp "''user.name''" scope s e']
      getGitConfig_spawn_not_rejected [of sp "''user.email''" scope s1 e'] a b
    by simp_all
  then show ?thesis
    by (cases p1; cases p2; simp add: verifyGitIdentity_spawn_unfold a b)
qed

lemma verifyGitIdentity_result:
  assumes "fst (run ex Capture [''git'', ''config'', scopeFlag scope, ''user.name''] s) = Fulfilled r1"
    and "fst (run ex Capture [''git'', ''config'', scopeFlag scope, ''user.email'']
               (snd (run ex Capture [''git'', ''config'', scopeFlag scope, ''user.name''] s)))
           = Fulfilled r2"
  shows "fst (verifyGitIdentity ex scope s)
     = Fulfilled \<lparr>username = (if exitCode r1 \<noteq> 0 then None else Some (trim (stdout r1))),
                  email = (if exitCode r2 \<noteq> 0 then None else Some (trim (stdout r2)))\<rparr>"
proof -
  obtain p1 s1 where a: "getGitConfig ex ''user.name'' scope s = (p1, s1)"
    by (cases "getGitConfig ex ''user.name'' scope s")
  have s1: "s1 = snd (run ex Capture [''git'', ''config'', scopeFlag scope, ''user.name''] s)"
    using getGitConfig_snd [of ex "''user.name''" scope s] a by simp
  obtain p2 s2 where b: "getGitConfig ex ''user.email'' scope s1 = (p2, s2)"
    by (cases "getGitConfig ex ''user.email'' scope s1")
  have "p1 = Fulfilled (if exitCode r1 \<noteq> 0 then None else Some (trim (stdout r1)))"
    using getGitConfig_result [OF assms(1)] a by simp
  moreover have "p2 = Fulfilled (if exitCode r2 \<noteq> 0 then None else Some (trim (stdout r2)))"
    using getGitConfig_result [OF assms(2) [folded s1]] b by simp
  ultimately show ?thesis
    by (simp add: verifyGitIdentity_unfold a b)
qed

lemma verifyGitIdentity_spawn_result:
  assumes "fst (execCommand sp ''git'' [''config'', scopeFlag scope, ''user.name''] s) = Fulfilled r1"
    and "fst (execCommand sp ''git'' [''config'', scopeFlag scope, ''user.email'']
               (snd (execCommand sp ''git'' [''config'', scopeFlag scope, ''user.name''] s)))
           = Fulfilled r2"
  shows "fst (verifyGitIdentity_spawn sp scope s)
     = Fulfilled \<lparr>username = (if exitCode r1 \<noteq> 0 then None else Some (stdout r1)),
                  email = (if exitCode r2 \<noteq> 0 then None else Some (stdout r2))\<rparr>"
proof -
  obtain p1 s1 where a: "getGitConfig_spawn sp ''user.name'' scope s = (p1, s1)"
    by (cases "getGitConfig_spawn sp ''user.name'' scope s")
  have s1: "s1 = snd (execCommand sp ''git'' [''config'', scopeFlag scope, ''user.name''] s)"
    using getGitConfig_spawn_snd [of sp "''user.name''" scope s] a by simp
  obtain p2 s2 where b: "getGitConfig_spawn sp ''user.email'' scope s1 = (p2, s2)"
    by (cases "getGitConfig_spawn sp ''user.email'' scope s1")
  have "p1 = Fulfilled (if exitCode r1 \<noteq> 0 then None else Some (stdout r1))"
    using getGitConfig_spawn_result [OF assms(1)] a by simp
  moreover have "p2 = Fulfilled (if exitCode r2 \<noteq> 0 then None else Some (stdout r2))"
    using getGitConfig_spawn_result [OF assms(2) [folded s1]] b by simp
  ultimately show ?thesis
    by (simp add: verifyGitIdentity_spawn_unfold a b)
qed

text \<open>
  Claim C7. For every key and scope \<^verbatim>\<open>getGitConfig\<close> maps the result of its subprocess to a
  value: \<^verbatim>\<open>null\<close> (here \<open>None\<close>) when the exit code is not 0, the printed value otherwise. It
  has no \<^verbatim>\<open>throw\<close> of its own: with a command runner that never rejects it never raises, and
  then \<^verbatim>\<open>verifyGitIdentity\<close> never raises either; with \<^verbatim>\<open>execCommand\<close>, which never rejects,
  this holds outright. \<^verbatim>\<open>verifyGitIdentity\<close> returns the two values read, each one a string or
  \<^verbatim>\<open>null\<close> whatever the other is.
\<close>

theorem git_config_absent_never_raises:
  "(fst (run ex Capture [''git'', ''config'', scopeFlag scope, key] s) = Fulfilled r \<longrightarrow>
      fst (getGitConfig ex key scope s)
        = Fulfilled (if exitCode r \<noteq> 0 then None else Some (trim (stdout r))))
   \<and> ((\<forall>w q e. fst (ex w q) \<noteq> Rejected e) \<longrightarrow>
        (\<forall>e. fst (getGitConfig ex key scope s) \<noteq> Rejected e)
        \<and> (\<forall>e. fst (verifyGitIdentity ex scope s) \<noteq> Rejected e))
   \<and> (fst (run ex Capture [''git'', ''config'', scopeFlag scope, ''user.name''] s) = Fulfilled rName
       \<and> fst (run ex Capture [''git'', ''config'', scopeFlag scope, ''user.email'']
               (snd (run ex Capture [''git'', ''config'', scopeFlag scope, ''user.name''] s)))
           = Fulfilled rEmail \<longrightarrow>
       fst (verifyGitIdentity ex scope s)
         = Fulfilled \<lparr>username = (if exitCode rName \<noteq> 0 then None else Some (trim (stdout rName))),
                      email = (if exitCode rEmail \<noteq> 0 then None else Some (trim (stdout rEmail)))\<rparr>)
   \<and> (fst (execCommand sp ''git'' [''config'', scopeFlag scope, key] s') = Fulfilled r \<longrightarrow>
      fst (getGitConfig_spawn sp key scope s')
        = Fulfilled (if exitCode r \<noteq> 0 then None else Some (stdout r)))
   \<and> (\<forall>e. fst (getGitConfig_spawn sp key scope s') \<noteq> Rejected e)
   \<and> (\<forall>e. fst (verifyGitIdentity_spawn sp scope s') \<noteq> Rejected e)
   \<and> (fst (execCommand sp ''git'' [''config'', scopeFlag scope, ''user.name''] s') = Fulfilled rName
       \<and> fst (execCommand sp ''git'' [''config'', scopeFlag scope, ''user.email'']
               (snd (execCommand sp ''git'' [''config'', scopeFlag scope, ''user.name''] s')))
           = Fulfilled rEmail \<longrightarrow>
       fst (verifyGitIdentity_spawn sp scope s')
         = Fulfilled \<lparr>username = (if exitCode rName \<noteq> 0 then None else Some (stdout rName)),
                      email = (if exitCode rEmail \<noteq> 0 then None else Some (stdout rEmail))\<rparr>)"
proof (intro conjI impI allI)
  show "fst (getGitConfig ex key scope s) \<noteq> Rejected e"
    if "\<forall>w q e. fst (ex w q) \<noteq> Rejected e" for e
    using that by (rule getGitConfig_not_rejected)
  show "fst (verifyGitIdentity ex scope s) \<noteq> Rejected e"
    if "\<forall>w q e. fst (ex w q) \<noteq> Rejected e" for e
    using that by (rule verifyGitIdentity_not_rejected)
  show "fst (verifyGitIdentity ex scope s)
         = Fulfilled \<lparr>username = (if exitCode rName \<noteq> 0 then None else Some (trim (stdout rName))),
                      email = (if exitCode rEmail \<noteq> 0 then None else Some (trim (stdout rEmail)))\<rparr>"
    if "fst (run ex Capture [''git'', ''config'', scopeFlag scope, ''user.name''] s) = Fulfilled rName
       \<and> fst (run ex Capture [''git'', ''config'', scopeFlag scope, ''user.email'']
               (snd (run ex Capture [''git'', ''config'', scopeFlag scope, ''user.name''] s)))
           = Fulfilled rEmail"
    using that by (intro verifyGitIdentity_result) simp_all
  show "fst (verifyGitIdentity_spawn sp scope s')
         = Fulfilled \<lparr>username = (if exitCode rName \<noteq> 0 then None else Some (stdout rName)),
                      email = (if exitCode rEmail \<noteq> 0 then None else Some (stdout rEmail))\<rparr>"
    if "fst (execCommand sp ''git'' [''config'', scopeFlag scope, ''user.name''] s') = Fulfilled rName
       \<and> fst (execCommand sp ''git'' [''config'', scopeFlag scope, ''user.email'']
               (snd (execCommand sp ''git'' [''config'', scopeFlag scope, ''user.name''] s')))
           = Fulfilled rEmail"
    using that by (intro verifyGitIdentity_spawn_result) simp_all
qed (simp_all add: getGitConfig_result getGitConfig_spawn_result getGitConfig_spawn_not_rejected
    verifyGitIdentity_spawn_not_rejected)

theorem git_config_absent_never_raises_witness:
  "(\<forall>w q e. fst (toyRunner w q) \<noteq> Rejected e)
   \<and> fst (run toyRunner Capture [''git'', ''config'', scopeFlag None, ''user.name'']
           (emptyWorld, []))
       = Fulfilled \<lparr>exitCode = 1, stdout = [], stderr = []\<rparr>
   \<and> fst (getGitConfig toyRunner ''user.name'' None (emptyWorld, [])) = Fulfilled None
   \<and> (\<forall>e. fst (verifyGitIdentity toyRunner None (emptyWorld, [])) \<noteq> Rejected e)"
proof -
  have h: "\<forall>w q e. fst (toyRunner w q) \<noteq> Rejected e"
    by (simp add: toyRunner_def)
  have a: "fst (run toyRunner Capture [''git'', ''config'', scopeFlag None, ''user.name'']
           (emptyWorld, []))
       = Fulfilled \<lparr>exitCode = 1, stdout = [], stderr = []\<rparr>"
    by (simp add: run_def toyRunner_def toyTool_def toyRead_def emptyWorld_def scopeFlag_def
        strOf_def defaultTo_def)
  note t = git_config_absent_never_raises [where ex = toyRunner and scope = None
      and key = "''user.name''" and s = "(emptyWorld, [])"
      and r = "\<lparr>exitCode = 1, stdout = [], stderr = []\<rparr>"
      and rName = "\<lparr>exitCode = 1, stdout = [], stderr = []\<rparr>"
      and rEmail = "\<lparr>exitCode = 1, stdout = [], stderr = []\<rparr>"
      and sp = failingSpawner and s' = "((), [])"]
  show ?thesis
    using t [THEN conjunct1] t [THEN conjunct2, THEN conjunct1] h a by simp
qed

section \<open>Setting the git identity\<close>

lemma getGitLabUserInfo_snd:
  "snd (getGitLabUserInfo parseJSON ex host s)
     = snd (run ex Capture (''glab'' # [''api'', ''user''] @ hostnameArgs host) s)"
  by (simp add: getGitLabUserInfo_def async_defs split: prod.splits promise.splits sum.splits)

lemma getGitLabUsername_spawn_snd:
  "snd (getGitLabUsername_spawn sp host s)
     = snd (execCommand sp ''glab'' ([''api'', ''user'', ''--jq'', ''.username''] @ hostnameArgs host) s)"
  by (simp add: getGitLabUsername_spawn_def async_defs split: prod.splits promise.splits)

lemma getGitLabEmail_spawn_snd:
  "snd (getGitLabEmail_spawn sp host s)
     = snd (execCommand sp ''glab'' ([''api'', ''user'', ''--jq'', ''.email''] @ hostnameArgs host) s)"
  by (simp add: getGitLabEmail_spawn_def async_defs split: prod.splits promise.splits)

lemma getGitLabUserInfo_spawn_snd:
  "snd (getGitLabUserInfo_spawn sp b host s)
     = snd (getGitLabEmail_spawn sp host (snd (getGitLabUsername_spawn sp host s)))"
  by (simp add: getGitLabUserInfo_spawn_def split: prod.splits promise.splits)

lemma execCommand_snd:
  "snd (execCommand sp command args s)
     = (snd (sp (fst s) (Pipe, command # args)), snd s @ [(Pipe, command # args)])"
  by (simp add: execCommand_def split: prod.splits)

lemma dry_run_is_fetch:
  "setupGitIdentity parseJSON interpolate ex host scope True s = getGitLabUserInfo parseJSON ex host s"
proof -
  obtain p s1 where a: "getGitLabUserInfo parseJSON ex host s = (p, s1)"
    by (cases "getGitLabUserInfo parseJSON ex host s")
  show ?thesis
    by (cases p) (simp_all add: setupGitIdentity_def async_defs a)
qed

lemma dry_run_spawn_is_fetch:
  "setupGitIdentity_spawn sp b host scope True s = getGitLabUserInfo_spawn sp b host s"
proof -
  obtain p s1 where a: "getGitLabUserInfo_spawn sp b host s = (p, s1)"
    by (cases "getGitLabUserInfo_spawn sp b host s")
  show ?thesis
    by (cases p) (simp_all add: setupGitIdentity_spawn_def async_defs a)
qed

lemma getGitConfig_world:
  "fst (getGitConfig ex key scope (w, tr)) = fst (getGitConfig ex key scope (w, tr'))"
  "fst (snd (getGitConfig ex key scope (w, tr))) = fst (snd (getGitConfig ex key scope (w, tr')))"
  by (simp_all add: getGitConfig_def async_defs run_def split: prod.splits promise.splits)

lemma getGitConfig_spawn_world:
  "fst (getGitConfig_spawn sp key scope (w, tr)) = fst (getGitConfig_spawn sp key scope (w, tr'))"
  "fst (snd (getGitConfig_spawn sp key scope (w, tr)))
     = fst (snd (getGitConfig_spawn sp key scope (w, tr')))"
  by (simp_all add: getGitConfig_spawn_def async_defs execCommand_def
      split: prod.splits promise.splits)

lemma verifyGitIdentity_world:
  "fst (verifyGitIdentity ex scope (w, tr)) = fst (verifyGitIdentity ex scope (w, tr'))"
proof -
  obtain p1 w1 t1 where a: "getGitConfig ex ''user.name'' scope (w, tr) = (p1, (w1, t1))"
    by (cases "getGitConfig ex ''user.name'' scope (w, tr)") auto
  obtain p1' w1' t1' where a': "getGitConfig ex ''user.name'' scope (w, tr') = (p1', (w1', t1'))"
    by (cases "getGitConfig ex ''user.name'' scope (w, tr')") auto
  have e: "p1' = p1" "w1' = w1"
    using getGitConfig_world [of ex "''user.name''" scope w tr tr'] a a' by simp_all
  have "fst (getGitConfig ex ''user.email'' scope (w1, t1))
          = fst (getGitConfig ex ''user.email'' scope (w1, t1'))"
    by (rule getGitConfig_world)
  then show ?thesis
    by (cases p1)
      (auto simp add: verifyGitIdentity_unfold a a' e split: prod.splits promise.splits)
qed

lemma verifyGitIdentity_spawn_world:
  "fst (verifyGitIdentity_spawn sp scope (w, tr)) = fst (verifyGitIdentity_spawn sp scope (w, tr'))"
proof -
  obtain p1 w1 t1 where a: "getGitConfig_spawn sp ''user.name'' scope (w, tr) = (p1, (w1, t1))"
    by (cases "getGitConfig_spawn sp ''user.name'' scope (w, tr)") auto
  obtain p1' w1' t1' where
    a': "getGitConfig_spawn sp ''user.name'' scope (w, tr') = (p1', (w1', t1'))"
    by (cases "getGitConfig_spawn sp ''user.name'' scope (w, tr')") auto
  have e: "p1' = p1" "w1' = w1"
    using getGitConfig_spawn_world [of sp "''user.name''" scope w tr tr'] a a' by simp_all
  have "fst (getGitConfig_spawn sp ''user.email'' scope (w1, t1))
          = fst (getGitConfig_spawn sp ''user.email'' scope (w1, t1'))"
    by (rule getGitConfig_spawn_world)
  then show ?thesis
    by (cases p1)
      (auto simp add: verifyGitIdentity_spawn_unfold a a' e split: prod.splits promise.splits)
qed

text \<open>
  Claim C5. With \<open>dryRun\<close> true, \<^verbatim>\<open>setupGitIdentity\<close> is the fetch of the user record and
  nothing more: it returns what \<^verbatim>\<open>getGitLabUserInfo\<close> returns and ends in the state that call
  ends in. The only requests it issues are the \<^verbatim>\<open>glab api user\<close> queries, so it makes no
  \<^verbatim>\<open>git config\<close> write, and the world is changed by those queries alone; when they leave it
  as it is, \<^verbatim>\<open>verifyGitIdentity\<close> gives the same result after the call as before it.
\<close>

theorem dry_run_writes_nothing:
  "setupGitIdentity parseJSON interpolate ex host scope True s = getGitLabUserInfo parseJSON ex host s
   \<and> snd (setupGitIdentity parseJSON interpolate ex host scope True s)
       = (snd (ex (fst s) (Capture, ''glab'' # [''api'', ''user''] @ hostnameArgs host)),
          snd s @ [(Capture, ''glab'' # [''api'', ''user''] @ hostnameArgs host)])
   \<and> (snd (ex (fst s) (Capture, ''glab'' # [''api'', ''user''] @ hostnameArgs host)) = fst s \<longrightarrow>
        fst (verifyGitIdentity ex scope'
               (snd (setupGitIdentity parseJSON interpolate ex host scope True s)))
          = fst (verifyGitIdentity ex scope' s))
   \<and> setupGitIdentity_spawn sp b host scope True t = getGitLabUserInfo_spawn sp b host t
   \<and> snd (snd (setupGitIdentity_spawn sp b host scope True t))
       = snd t @ [(Pipe, ''glab'' # [''api'', ''user'', ''--jq'', ''.username''] @ hostnameArgs host),
                  (Pipe, ''glab'' # [''api'', ''user'', ''--jq'', ''.email''] @ hostnameArgs host)]
   \<and> (fst (snd (setupGitIdentity_spawn sp b host scope True t)) = fst t \<longrightarrow>
        fst (verifyGitIdentity_spawn sp scope'
               (snd (setupGitIdentity_spawn sp b host scope True t)))
          = fst (verifyGitIdentity_spawn sp scope' t))"
proof (intro conjI impI)
  show "setupGitIdentity parseJSON interpolate ex host scope True s
          = getGitLabUserInfo parseJSON ex host s"
    by (rule dry_run_is_fetch)
  show a: "snd (setupGitIdentity parseJSON interpolate ex host scope True s)
       = (snd (ex (fst s) (Capture, ''glab'' # [''api'', ''user''] @ hostnameArgs host)),
          snd s @ [(Capture, ''glab'' # [''api'', ''user''] @ hostnameArgs host)])"
    by (simp add: dry_run_is_fetch getGitLabUserInfo_snd run_snd)
  show "fst (verifyGitIdentity ex scope'
               (snd (setupGitIdentity parseJSON interpolate ex host scope True s)))
          = fst (verifyGitIdentity ex scope' s)"
    if "snd (ex (fst s) (Capture, ''glab'' # [''api'', ''user''] @ hostnameArgs host)) = fst s"
    using verifyGitIdentity_world [of ex scope' "fst s" _ "snd s"] that
    by (simp add: a)
  show "setupGitIdentity_spawn sp b host scope True t = getGitLabUserInfo_spawn sp b host t"
    by (rule dry_run_spawn_is_fetch)
  show "snd (snd (setupGitIdentity_spawn sp b host scope True t))
       = snd t @ [(Pipe, ''glab'' # [''api'', ''user'', ''--jq'', ''.username''] @ hostnameArgs host),
                  (Pipe, ''glab'' # [''api'', ''user'', ''--jq'', ''.email''] @ hostnameArgs host)]"
    by (simp add: dry_run_spawn_is_fetch getGitLabUserInfo_spawn_snd getGitLabEmail_spawn_snd
        getGitLabUsername_spawn_snd execCommand_snd)
  show "fst (verifyGitIdentity_spawn sp scope'
               (snd (setupGitIdentity_spawn sp b host scope True t)))
          = fst (verifyGitIdentity_spawn sp scope' t)"
    if "fst (snd (setupGitIdentity_spawn sp b host scope True t)) = fst t"
    using verifyGitIdentity_spawn_world [of sp scope' "fst t"
        "snd (snd (setupGitIdentity_spawn sp b host scope True t))" "snd t"] that
    by (metis prod.collapse)
qed

theorem dry_run_writes_nothing_witness:
  "snd (toyRunner emptyWorld (Capture, ''glab'' # [''api'', ''user''] @ hostnameArgs None))
     = fst (emptyWorld, [])
   \<and> fst (verifyGitIdentity toyRunner None
            (snd (setupGitIdentity sampleParse plainWord toyRunner None None True (emptyWorld, []))))
       = fst (verifyGitIdentity toyRunner None (emptyWorld, []))"
proof -
  have h: "snd (toyRunner emptyWorld (Capture, ''glab'' # [''api'', ''user''] @ hostnameArgs None))
     = fst (emptyWorld, [])"
    by (simp add: toyRunner_def toyTool_def hostnameArgs_def truthyS_def)
  note t = dry_run_writes_nothing [where ex = toyRunner and host = None and scope = None
      and scope' = None and s = "(emptyWorld, [])" and parseJSON = sampleParse
      and interpolate = plainWord and sp = toySpawner and b = False and t = "(emptyWorld, [])"]
  show ?thesis
    using t [THEN conjunct2, THEN conjunct2, THEN conjunct1] h by simp
qed

lemma scopeFlag_eq:
  "scopeFlag scope = (if scope = Some ''local'' then ''--local'' else ''--global'')"
  by (cases scope) (simp_all add: scopeFlag_def strOf_def defaultTo_def)

lemma setGitConfig_unfold:
  "setGitConfig interpolate ex key val scope s =
     (case fst (ex (fst s)
                 (Capture, [''git'', ''config'', scopeFlag scope, key] @ interpolate val)) of
        Fulfilled r \<Rightarrow>
          if exitCode r \<noteq> 0
          then Rejected (''Failed to set git config '' @ key @ '': '' @ stderr r)
          else Fulfilled ()
      | Rejected e \<Rightarrow> Rejected e
      | Pending \<Rightarrow> Pending,
      (snd (ex (fst s) (Capture, [''git'', ''config'', scopeFlag scope, key] @ interpolate val)),
       snd s @ [(Capture, [''git'', ''config'', scopeFlag scope, key] @ interpolate val)]))"
  by (simp add: setGitConfig_def async_defs run_def split: prod.splits promise.splits)

lemma setGitConfig_spawn_unfold:
  "setGitConfig_spawn sp key val scope s =
     (case settle [] [] (fst (sp (fst s) (Pipe, [''git'', ''config'', scopeFlag scope, key, val]))) of
        Fulfilled r \<Rightarrow>
          if exitCode r \<noteq> 0
          then Rejected (''Failed to set git config '' @ key @ '': '' @ stderr r)
          else Fulfilled ()
      | Rejected e \<Rightarrow> Rejected e
      | Pending \<Rightarrow> Pending,
      (snd (sp (fst s) (Pipe, [''git'', ''config'', scopeFlag scope, key, val])),
       snd s @ [(Pipe, [''git'', ''config'', scopeFlag scope, key, val])]))"
  by (simp add: setGitConfig_spawn_def async_defs execCommand_def split: prod.splits promise.splits)

lemma setupGitIdentity_writes:
  assumes "getGitLabUserInfo parseJSON ex host s = (Fulfilled info, s1)"
  shows "setupGitIdentity parseJSON interpolate ex host scope False s =
     (case setGitConfig interpolate ex ''user.name'' (username info) scope s1 of
        (Fulfilled u, s2) \<Rightarrow>
          (case setGitConfig interpolate ex ''user.email'' (email info) scope s2 of
             (Fulfilled u', s3) \<Rightarrow> (Fulfilled info, s3)
           | (Rejected e, s3) \<Rightarrow> (Rejected e, s3)
           | (Pending, s3) \<Rightarrow> (Pending, s3))
      | (Rejected e, s2) \<Rightarrow> (Rejected e, s2)
      | (Pending, s2) \<Rightarrow> (Pending, s2))"
  by (simp add: setupGitIdentity_def async_defs assms split: prod.splits promise.splits)

lemma setupGitIdentity_spawn_writes:
  assumes "getGitLabUserInfo_spawn sp b host s = (Fulfilled info, s1)"
  shows "setupGitIdentity_spawn sp b host scope False s =
     (case setGitConfig_spawn sp ''user.name'' (username info) scope s1 of
        (Fulfilled u, s2) \<Rightarrow>
          (case setGitConfig_spawn sp ''user.email'' (email info) scope s2 of
             (Fulfilled u', s3) \<Rightarrow> (Fulfilled info, s3)
           | (Rejected e, s3) \<Rightarrow> (Rejected e, s3)
           | (Pending, s3) \<Rightarrow> (Pending, s3))
      | (Rejected e, s2) \<Rightarrow> (Rejected e, s2)
      | (Pending, s2) \<Rightarrow> (Pending, s2))"
  by (simp add: setupGitIdentity_spawn_def async_defs assms split: prod.splits promise.splits)

lemma setupGitIdentity_order:
  fixes interpolate :: "jsval \<Rightarrow> string list" and scope :: "string option"
  assumes "getGitLabUserInfo parseJSON ex host s = (Fulfilled info, s1)"
  defines "nameReq \<equiv>
    (Capture, [''git'', ''config'', scopeFlag scope, ''user.name''] @ interpolate (username info))"
    and "emailReq \<equiv>
    (Capture, [''git'', ''config'', scopeFlag scope, ''user.email''] @ interpolate (email info))"
  defines "R \<equiv> setupGitIdentity parseJSON interpolate ex host scope False s"
  shows "snd (snd R) = snd s1 @ [nameReq] \<or> snd (snd R) = snd s1 @ [nameReq, emailReq]"
    and "failed (fst (ex (fst s1) nameReq)) \<Longrightarrow>
           snd R = (snd (ex (fst s1) nameReq), snd s1 @ [nameReq]) \<and> (\<exists>e. fst R = Rejected e)"
    and "fst (ex (fst s1) nameReq) = Fulfilled r \<Longrightarrow> exitCode r \<noteq> 0 \<Longrightarrow>
           fst R = Rejected (''Failed to set git config user.name: '' @ stderr r)"
    and "fst (ex (fst s1) nameReq) = Rejected e \<Longrightarrow> fst R = Rejected e"
    and "fst (ex (fst s1) nameReq) = Fulfilled r \<Longrightarrow> exitCode r = 0 \<Longrightarrow>
           snd (snd R) = snd s1 @ [nameReq, emailReq]"
  unfolding R_def nameReq_def emailReq_def setupGitIdentity_writes [OF assms(1)]
  by (cases "fst (ex (fst s1) (Capture, [''git'', ''config'', scopeFlag scope, ''user.name'']
                 @ interpolate (username info)))";
      simp add: setGitConfig_unfold failed_def split: promise.splits)+

lemma setupGitIdentity_spawn_order:
  fixes scope :: "string option"
  assumes "getGitLabUserInfo_spawn sp b host s = (Fulfilled info, s1)"
  defines "nameReq \<equiv> (Pipe, [''git'', ''config'', scopeFlag scope, ''user.name'', username info])"
    and "emailReq \<equiv> (Pipe, [''git'', ''config'', scopeFlag scope, ''user.email'', email info])"
  defines "R \<equiv> setupGitIdentity_spawn sp b host scope False s"
  shows "snd (snd R) = snd s1 @ [nameReq] \<or> snd (snd R) = snd s1 @ [nameReq, emailReq]"
    and "failed (settle [] [] (fst (sp (fst s1) nameReq))) \<Longrightarrow>
           snd R = (snd (sp (fst s1) nameReq), snd s1 @ [nameReq]) \<and> (\<exists>e. fst R = Rejected e)"
    and "settle [] [] (fst (sp (fst s1) nameReq)) = Fulfilled r \<Longrightarrow> exitCode r \<noteq> 0 \<Longrightarrow>
           fst R = Rejected (''Failed to set git config user.name: '' @ stderr r)"
    and "settle [] [] (fst (sp (fst s1) nameReq)) = Fulfilled r \<Longrightarrow> exitCode r = 0 \<Longrightarrow>
           snd (snd R) = snd s1 @ [nameReq, emailReq]"
  unfolding R_def nameReq_def emailReq_def setupGitIdentity_spawn_writes [OF assms(1)]
  using settle_not_rejected
    [of "[]" "[]" "fst (sp (fst s1) (Pipe, [''git'', ''config'', scopeFlag scope, ''user.name'',
                 username info]))"]
  by (cases "settle [] [] (fst (sp (fst s1) (Pipe, [''git'', ''config'', scopeFlag scope,
                 ''user.name'', username info])))";
      simp add: setGitConfig_spawn_unfold failed_def split: promise.splits)+

lemma setupGitIdentity_no_fetch:
  assumes "\<forall>info. fst (getGitLabUserInfo parseJSON ex host s) \<noteq> Fulfilled info"
  shows "snd (setupGitIdentity parseJSON interpolate ex host scope False s)
           = snd (getGitLabUserInfo parseJSON ex host s)"
  using assms
  by (cases "getGitLabUserInfo parseJSON ex host s")
    (auto simp add: setupGitIdentity_def async_defs split: promise.splits)

text \<open>
  Claim C6. After a fetch that gave the identity, a \<^verbatim>\<open>setupGitIdentity\<close> that is not a dry
  run issues the write of \<^verbatim>\<open>user.name\<close> first and the write of \<^verbatim>\<open>user.email\<close> after it, and
  nothing else; both carry the flag of the given scope, \<^verbatim>\<open>--local\<close> for the scope
  \<^verbatim>\<open>local\<close> and \<^verbatim>\<open>--global\<close> for the scope \<^verbatim>\<open>global\<close>, which is the default (a scope
  outside the interface is taken as \<^verbatim>\<open>global\<close>). If the write of \<^verbatim>\<open>user.name\<close> fails, the
  call ends with that request, so the write of \<^verbatim>\<open>user.email\<close> is never attempted and nothing
  is undone, in the world that the failed write left; and the error is raised to the caller:
  the runner's own, or \<^verbatim>\<open>Failed to set git config user.name: <stderr>\<close> for a non-zero exit.
  If the fetch does not give an identity, nothing is written.
\<close>

theorem name_written_before_email:
  "(getGitLabUserInfo parseJSON ex host s = (Fulfilled info, s1) \<longrightarrow>
      (let flag = (if scope = Some ''local'' then ''--local'' else ''--global'');
           nameReq = (Capture, [''git'', ''config'', flag, ''user.name'']
                                 @ interpolate (username info));
           emailReq = (Capture, [''git'', ''config'', flag, ''user.email'']
                                  @ interpolate (email info));
           R = setupGitIdentity parseJSON interpolate ex host scope False s
       in (snd (snd R) = snd s1 @ [nameReq] \<or> snd (snd R) = snd s1 @ [nameReq, emailReq])
          \<and> (failed (fst (ex (fst s1) nameReq)) \<longrightarrow>
               snd R = (snd (ex (fst s1) nameReq), snd s1 @ [nameReq])
               \<and> (\<exists>e. fst R = Rejected e))
          \<and> (\<forall>r. fst (ex (fst s1) nameReq) = Fulfilled r \<and> exitCode r \<noteq> 0 \<longrightarrow>
               fst R = Rejected (''Failed to set git config user.name: '' @ stderr r))
          \<and> (\<forall>e. fst (ex (fst s1) nameReq) = Rejected e \<longrightarrow> fst R = Rejected e)
          \<and> (\<forall>r. fst (ex (fst s1) nameReq) = Fulfilled r \<and> exitCode r = 0 \<longrightarrow>
               snd (snd R) = snd s1 @ [nameReq, emailReq])))
   \<and> ((\<forall>info. fst (getGitLabUserInfo parseJSON ex host s) \<noteq> Fulfilled info) \<longrightarrow>
        snd (setupGitIdentity parseJSON interpolate ex host scope False s)
          = snd (getGitLabUserInfo parseJSON ex host s))
   \<and> (getGitLabUserInfo_spawn sp b host t = (Fulfilled info', t1) \<longrightarrow>
      (let flag = (if scope = Some ''local'' then ''--local'' else ''--global'');
           nameReq = (Pipe, [''git'', ''config'', flag, ''user.name'', username info']);
           emailReq = (Pipe, [''git'', ''config'', flag, ''user.email'', email info']);
           R = setupGitIdentity_spawn sp b host scope False t
       in (snd (snd R) = snd t1 @ [nameReq] \<or> snd (snd R) = snd t1 @ [nameReq, emailReq])
          \<and> (failed (settle [] [] (fst (sp (fst t1) nameReq))) \<longrightarrow>
               snd R = (snd (sp (fst t1) nameReq), snd t1 @ [nameReq])
               \<and> (\<exists>e. fst R = Rejected e))
          \<and> (\<forall>r. settle [] [] (fst (sp (fst t1) nameReq)) = Fulfilled r \<and> exitCode r \<noteq> 0 \<longrightarrow>
               fst R = Rejected (''Failed to set git config user.name: '' @ stderr r))
          \<and> (\<forall>r. settle [] [] (fst (sp (fst t1) nameReq)) = Fulfilled r \<and> exitCode r = 0 \<longrightarrow>
               snd (snd R) = snd t1 @ [nameReq, emailReq])))"
  unfolding Let_def scopeFlag_eq [symmetric]
  using setupGitIdentity_order [where parseJSON = parseJSON and ex = ex and host = host
        and s = s and info = info and ?s1.0 = s1 and interpolate = interpolate and scope = scope]
    setupGitIdentity_spawn_order [where sp = sp and b = b and host = host and s = t
        and info = info' and ?s1.0 = t1 and scope = scope]
    setupGitIdentity_no_fetch [where parseJSON = parseJSON and ex = ex and host = host
        and s = s and interpolate = interpolate and scope = scope]
  by blast

theorem name_written_before_email_witness:
  "getGitLabUserInfo sampleParse toyRunner None (lockedWorld, [])
     = (Fulfilled \<lparr>username = JStr ''ada'', email = JStr ''ada@example.com''\<rparr>,
        (lockedWorld, [(Capture, [''glab'', ''api'', ''user''])]))
   \<and> failed (fst (toyRunner lockedWorld
                    (Capture, [''git'', ''config'', ''--local'', ''user.name'', ''ada''])))
   \<and> setupGitIdentity sampleParse plainWord toyRunner None (Some ''local'') False (lockedWorld, [])
       = (Rejected ''Failed to set git config user.name: error: could not lock config file'',
          (lockedWorld, [(Capture, [''glab'', ''api'', ''user'']),
                         (Capture, [''git'', ''config'', ''--local'', ''user.name'', ''ada''])]))
   \<and> getGitLabUserInfo sampleParse toyRunner None (emptyWorld, [])
       = (Fulfilled \<lparr>username = JStr ''ada'', email = JStr ''ada@example.com''\<rparr>,
          (emptyWorld, [(Capture, [''glab'', ''api'', ''user''])]))
   \<and> fst (toyRunner emptyWorld (Capture, [''git'', ''config'', ''--global'', ''user.name'', ''ada'']))
       = Fulfilled \<lparr>exitCode = 0, stdout = [], stderr = []\<rparr>
   \<and> snd (snd (setupGitIdentity sampleParse plainWord toyRunner None None False (emptyWorld, [])))
       = [(Capture, [''glab'', ''api'', ''user'']),
          (Capture, [''git'', ''config'', ''--global'', ''user.name'', ''ada'']),
          (Capture, [''git'', ''config'', ''--global'', ''user.email'', ''ada@example.com''])]
   \<and> getGitLabUserInfo_spawn toySpawner False None (lockedWorld, [])
       = (Fulfilled \<lparr>username = ''ada'', email = ''ada@example.com''\<rparr>,
          (lockedWorld, [(Pipe, [''glab'', ''api'', ''user'', ''--jq'', ''.username'']),
                         (Pipe, [''glab'', ''api'', ''user'', ''--jq'', ''.email''])]))
   \<and> failed (settle [] [] (fst (toySpawner lockedWorld
                    (Pipe, [''git'', ''config'', ''--local'', ''user.name'', ''ada'']))))
   \<and> setupGitIdentity_spawn toySpawner False None (Some ''local'') False (lockedWorld, [])
       = (Rejected ''Failed to set git config user.name: error: could not lock config file'',
          (lockedWorld, [(Pipe, [''glab'', ''api'', ''user'', ''--jq'', ''.username'']),
                         (Pipe, [''glab'', ''api'', ''user'', ''--jq'', ''.email'']),
                         (Pipe, [''git'', ''config'', ''--local'', ''user.name'', ''ada''])]))"
proof -
  have tr: "trim adaJson = adaJson"
    by (simp add: trim_def isSpace_def adaJson_def quoted_def)
  have a: "getGitLabUserInfo sampleParse toyRunner None (w, [])
     = (Fulfilled \<lparr>username = JStr ''ada'', email = JStr ''ada@example.com''\<rparr>,
        (w, [(Capture, [''glab'', ''api'', ''user''])]))" for w
    by (simp add: getGitLabUserInfo_def async_defs run_def toyRunner_def toyTool_def
        hostnameArgs_def truthyS_def tr sampleParse_def getProp_def)
  have b: "toyRunner lockedWorld (Capture, [''git'', ''config'', ''--local'', ''user.name'', ''ada''])
     = (Fulfilled \<lparr>exitCode = 255, stdout = [], stderr = ''error: could not lock config file''\<rparr>,
        lockedWorld)"
    by (simp add: toyRunner_def toyTool_def toyWrite_def lockedWorld_def)
  have d: "failed (fst (toyRunner lockedWorld
                    (Capture, [''git'', ''config'', ''--local'', ''user.name'', ''ada''])))"
    by (simp add: b failed_def)
  note t = name_written_before_email [where parseJSON = sampleParse and ex = toyRunner
      and host = None and interpolate = plainWord and sp = toySpawner and b = False
      and info = "\<lparr>username = JStr ''ada'', email = JStr ''ada@example.com''\<rparr>"
      and info' = "\<lparr>username = ''ada'', email = ''ada@example.com''\<rparr>"]
  note t1 = t [where s = "(lockedWorld, [])" and scope = "Some ''local''"
      and ?s1.0 = "(lockedWorld, [(Capture, [''glab'', ''api'', ''user''])])"
      and t = "(lockedWorld, [])"
      and ?t1.0 = "(lockedWorld, [(Pipe, [''glab'', ''api'', ''user'', ''--jq'', ''.username'']),
                         (Pipe, [''glab'', ''api'', ''user'', ''--jq'', ''.email''])])"]
  note t2 = t [where s = "(emptyWorld, [])" and scope = None
      and ?s1.0 = "(emptyWorld, [(Capture, [''glab'', ''api'', ''user''])])"
      and t = "(emptyWorld, [])" and ?t1.0 = "(emptyWorld, [])"]
  have e: "snd (setupGitIdentity sampleParse plainWord toyRunner None (Some ''local'') False
                 (lockedWorld, []))
       = (lockedWorld, [(Capture, [''glab'', ''api'', ''user'']),
                         (Capture, [''git'', ''config'', ''--local'', ''user.name'', ''ada''])])"
    and f: "fst (setupGitIdentity sampleParse plainWord toyRunner None (Some ''local'') False
                 (lockedWorld, []))
       = Rejected ''Failed to set git config user.name: error: could not lock config file''"
    using t1 [THEN conjunct1, rule_format, OF a] d
    by (simp_all add: Let_def plainWord_def b)
  have g: "toyRunner emptyWorld (Capture, [''git'', ''config'', ''--global'', ''user.name'', ''ada''])
     = (Fulfilled \<lparr>exitCode = 0, stdout = [], stderr = []\<rparr>,
        emptyWorld\<lparr>config := [(''--global user.name'', ''ada'')]\<rparr>)"
    by (simp add: toyRunner_def toyTool_def toyWrite_def emptyWorld_def)
  have h: "snd (snd (setupGitIdentity sampleParse plainWord toyRunner None None False
                       (emptyWorld, [])))
       = [(Capture, [''glab'', ''api'', ''user'']),
          (Capture, [''git'', ''config'', ''--global'', ''user.name'', ''ada'']),
          (Capture, [''git'', ''config'', ''--global'', ''user.email'', ''ada@example.com''])]"
    using t2 [THEN conjunct1, rule_format, OF a]
    by (simp add: Let_def plainWord_def g)
  have tu: "trim ''ada'' = ''ada''" and te: "trim ''ada@example.com'' = ''ada@example.com''"
    and tn: "trim [] = []"
    and tl: "trim ''error: could not lock config file'' = ''error: could not lock config file''"
    by (simp_all add: trim_def isSpace_def)
  have a': "getGitLabUserInfo_spawn toySpawner False None (lockedWorld, [])
       = (Fulfilled \<lparr>username = ''ada'', email = ''ada@example.com''\<rparr>,
          (lockedWorld, [(Pipe, [''glab'', ''api'', ''user'', ''--jq'', ''.username'']),
                         (Pipe, [''glab'', ''api'', ''user'', ''--jq'', ''.email''])]))"
    by (simp add: getGitLabUserInfo_spawn_def getGitLabUsername_spawn_def
        getGitLabEmail_spawn_def async_defs execCommand_def toySpawner_def toyTool_def
        hostnameArgs_def truthyS_def promiseAll2_def orZero_def tu te tn)
  have b': "settle [] [] (fst (toySpawner lockedWorld
                    (Pipe, [''git'', ''config'', ''--local'', ''user.name'', ''ada''])))
     = Fulfilled \<lparr>exitCode = 255, stdout = [], stderr = ''error: could not lock config file''\<rparr>"
    and w': "snd (toySpawner lockedWorld
                    (Pipe, [''git'', ''config'', ''--local'', ''user.name'', ''ada''])) = lockedWorld"
    by (simp_all add: toySpawner_def toyTool_def toyWrite_def lockedWorld_def orZero_def tn tl)
  have d': "failed (settle [] [] (fst (toySpawner lockedWorld
                    (Pipe, [''git'', ''config'', ''--local'', ''user.name'', ''ada'']))))"
    by (simp add: b' failed_def)
  have e': "snd (setupGitIdentity_spawn toySpawner False None (Some ''local'') False (lockedWorld, []))
       = (lockedWorld, [(Pipe, [''glab'', ''api'', ''user'', ''--jq'', ''.username'']),
                         (Pipe, [''glab'', ''api'', ''user'', ''--jq'', ''.email'']),
                         (Pipe, [''git'', ''config'', ''--local'', ''user.name'', ''ada''])])"
    and f': "fst (setupGitIdentity_spawn toySpawner False None (Some ''local'') False
                   (lockedWorld, []))
       = Rejected ''Failed to set git config user.name: error: could not lock config file''"
    using t1 [THEN conjunct2, THEN conjunct2, rule_format, OF a'] d'
    by (simp_all add: Let_def b' w')
  show ?thesis
    using a [of lockedWorld] d e f a [of emptyWorld] g h a' d' e' f'
    by (simp add: prod_eq_iff)
qed

section \<open>Credential-helper setup: calling it again\<close>

lemma getGlabPath_unfold:
  "getGlabPath ex platform s =
     (case fst (ex (fst s) (Capture, [lookupCommand platform, ''glab''])) of
        Fulfilled r \<Rightarrow>
          if exitCode r \<noteq> 0 \<or> stdout r = [] then Rejected notFoundMessage
          else Fulfilled (trim (hd (splitOn (CHR 0x0A) (stdout r))))
      | Rejected m \<Rightarrow> Rejected (if includesStr m ''not found'' then m else notFoundMessage)
      | Pending \<Rightarrow> Pending,
      (snd (ex (fst s) (Capture, [lookupCommand platform, ''glab''])),
       snd s @ [(Capture, [lookupCommand platform, ''glab''])]))"
  by (simp add: getGlabPath_def async_defs run_def notFound_includes
      split: prod.splits promise.splits)

lemma execCommand_run: "execCommand sp command args = run (spawnRunner sp) Pipe (command # args)"
  by (rule ext) (simp add: execCommand_def run_def spawnRunner_def split: prod.splits)

lemma spawnRunner_not_rejected: "fst (spawnRunner sp w q) \<noteq> Rejected e"
  by (simp add: spawnRunner_def settle_not_rejected)

lemma run_spawnRunner_not_rejected:
  assumes "run (spawnRunner sp) io argv s = (p, s')"
  shows "p \<noteq> Rejected e"
  using run_fst [of "spawnRunner sp" io argv s] assms spawnRunner_not_rejected [of sp]
  by simp

lemma getGlabPath_spawn_unfold:
  "getGlabPath_spawn sp platform s =
     (case fst (spawnRunner sp (fst s) (Pipe, [lookupCommand platform, ''glab''])) of
        Fulfilled r \<Rightarrow>
          if exitCode r \<noteq> 0 \<or> stdout r = [] then Rejected notFoundMessage
          else Fulfilled (trim (hd (splitOn (CHR 0x0A) (stdout r))))
      | Rejected m \<Rightarrow> Rejected (if includesStr m ''not found'' then m else notFoundMessage)
      | Pending \<Rightarrow> Pending,
      (snd (spawnRunner sp (fst s) (Pipe, [lookupCommand platform, ''glab''])),
       snd s @ [(Pipe, [lookupCommand platform, ''glab''])]))"
proof -
  obtain p w' where a: "spawnRunner sp (fst s) (Pipe, [lookupCommand platform, ''glab'']) = (p, w')"
    by (cases "spawnRunner sp (fst s) (Pipe, [lookupCommand platform, ''glab''])")
  have "p \<noteq> Rejected e" for e
    using spawnRunner_not_rejected [of sp "fst s" "(Pipe, [lookupCommand platform, ''glab''])" e] a
    by simp
  then show ?thesis
    by (cases p) (auto simp add: getGlabPath_spawn_def execCommand_run async_defs run_def a)
qed

lemma setup_unfold:
  assumes "getGlabPath ex platform s = (Fulfilled p, s1)"
  shows "runGlabAuthSetupGit ex platform host force s =
     (let g = run ex Capture (''git'' # getHelperArgs host) s1
      in if configured (fst g) \<and> \<not> force then (Fulfilled True, snd g)
         else if fst g = Pending then (Pending, snd g)
         else
           let c = run ex Capture (''git'' # clearHelperArgs host) (snd g)
           in if fst c = Pending then (Pending, snd c)
              else
                let a = run ex Capture (''git'' # addHelperArgs host p) (snd c)
                in (case fst a of
                      Fulfilled r \<Rightarrow> Fulfilled (exitCode r = 0)
                    | Rejected e \<Rightarrow> Fulfilled False
                    | Pending \<Rightarrow> Pending,
                    snd a))"
proof -
  obtain pg sg where g: "run ex Capture (''git'' # getHelperArgs host) s1 = (pg, sg)"
    by (cases "run ex Capture (''git'' # getHelperArgs host) s1")
  obtain pc sc where c: "run ex Capture (''git'' # clearHelperArgs host) sg = (pc, sc)"
    by (cases "run ex Capture (''git'' # clearHelperArgs host) sg")
  obtain pa sa where a: "run ex Capture (''git'' # addHelperArgs host p) sc = (pa, sa)"
    by (cases "run ex Capture (''git'' # addHelperArgs host p) sc")
  note g' = g [unfolded helper_args]
  note c' = c [unfolded helper_args]
  note a' = a [unfolded helper_args]
  show ?thesis
    by (cases pg; cases pc; cases pa;
        simp add: runGlabAuthSetupGit_def async_defs assms g c a g' c' a' configured_def Let_def)
qed

lemma setup_spawn_unfold:
  assumes "getGlabPath_spawn sp platform s = (Fulfilled p, s1)"
  shows "runGlabAuthSetupGit_spawn sp platform host force s =
     (let g = run (spawnRunner sp) Pipe (''git'' # getHelperArgs host) s1
      in if configured (fst g) \<and> \<not> force then (Fulfilled True, snd g)
         else if fst g = Pending then (Pending, snd g)
         else
           let c = run (spawnRunner sp) Pipe (''git'' # clearHelperArgs host) (snd g)
           in if fst c = Pending then (Pending, snd c)
              else
                let a = run (spawnRunner sp) Pipe (''git'' # addHelperArgs host p) (snd c)
                in (case fst a of
                      Fulfilled r \<Rightarrow> Fulfilled (exitCode r = 0)
                    | Rejected e \<Rightarrow> Fulfilled False
                    | Pending \<Rightarrow> Pending,
                    snd a))"
proof -
  obtain pg sg where g: "run (spawnRunner sp) Pipe (''git'' # getHelperArgs host) s1 = (pg, sg)"
    by (cases "run (spawnRunner sp) Pipe (''git'' # getHelperArgs host) s1")
  obtain pc sc where c: "run (spawnRunner sp) Pipe (''git'' # clearHelperArgs host) sg = (pc, sc)"
    by (cases "run (spawnRunner sp) Pipe (''git'' # clearHelperArgs host) sg")
  obtain pa sa where a: "run (spawnRunner sp) Pipe (''git'' # addHelperArgs host p) sc = (pa, sa)"
    by (cases "run (spawnRunner sp) Pipe (''git'' # addHelperArgs host p) sc")
  note n = run_spawnRunner_not_rejected [OF g] run_spawnRunner_not_rejected [OF c]
    run_spawnRunner_not_rejected [OF a]
  note g' = g [unfolded helper_args]
  note c' = c [unfolded helper_args]
  note a' = a [unfolded helper_args]
  show ?thesis
    using n
    by (cases pg; cases pc; cases pa;
        simp add: runGlabAuthSetupGit_spawn_def execCommand_run async_defs assms g c a g' c' a'
          configured_def Let_def)
qed

lemma setup_not_resolved:
  assumes "\<forall>p. fst (getGlabPath ex platform s) \<noteq> Fulfilled p"
  shows "fst (runGlabAuthSetupGit ex platform host force s) \<noteq> Fulfilled True"
  using assms
  by (cases "getGlabPath ex platform s")
    (auto simp add: runGlabAuthSetupGit_def async_defs split: promise.splits)

lemma setup_spawn_not_resolved:
  assumes "\<forall>p. fst (getGlabPath_spawn sp platform s) \<noteq> Fulfilled p"
  shows "fst (runGlabAuthSetupGit_spawn sp platform host force s) \<noteq> Fulfilled True"
  using assms
  by (cases "getGlabPath_spawn sp platform s")
    (auto simp add: runGlabAuthSetupGit_spawn_def async_defs split: promise.splits)

text \<open>
  The argument for both revisions: \<open>F\<close> is the setup and \<open>P\<close> the resolution of the path, given
  by their unfoldings over a runner \<open>ex\<close> and a mode \<open>io\<close>.
\<close>

lemma idempotent_generic:
  fixes ex :: "'w runner"
    and F :: "bool \<Rightarrow> ('w \<times> request list) \<Rightarrow> bool promise \<times> ('w \<times> request list)"
    and P :: "('w \<times> request list) \<Rightarrow> string promise \<times> ('w \<times> request list)"
  assumes gl: "gitLike ex io platform host"
    and P: "\<And>s. P s = (resolve (fst (ex (fst s) (io, [lookupCommand platform, ''glab'']))),
                 (snd (ex (fst s) (io, [lookupCommand platform, ''glab''])),
                  snd s @ [(io, [lookupCommand platform, ''glab''])]))"
    and F: "\<And>force s p s1. P s = (Fulfilled p, s1) \<Longrightarrow>
       F force s =
         (let g = run ex io (''git'' # getHelperArgs host) s1
          in if configured (fst g) \<and> \<not> force then (Fulfilled True, snd g)
             else if fst g = Pending then (Pending, snd g)
             else
               let c = run ex io (''git'' # clearHelperArgs host) (snd g)
               in if fst c = Pending then (Pending, snd c)
                  else
                    let a = run ex io (''git'' # addHelperArgs host p) (snd c)
                    in (case fst a of
                          Fulfilled r \<Rightarrow> Fulfilled (exitCode r = 0)
                        | Rejected e \<Rightarrow> Fulfilled False
                        | Pending \<Rightarrow> Pending,
                        snd a))"
    and N: "\<And>force s. \<forall>p. fst (P s) \<noteq> Fulfilled p \<Longrightarrow> fst (F force s) \<noteq> Fulfilled True"
    and first: "F force s = (Fulfilled True, s1)"
  shows "F False s1 =
           (Fulfilled True,
            (fst s1, snd s1 @ [(io, [lookupCommand platform, ''glab'']),
                               (io, ''git'' # getHelperArgs host)]))"
proof -
  let ?L = "(io, [lookupCommand platform, ''glab''])"
  let ?G = "(io, ''git'' # getHelperArgs host)"
  let ?C = "(io, ''git'' # clearHelperArgs host)"
  have lw: "snd (ex w ?L) = w" for w
    using gl by (simp add: gitLike_def)
  have ls: "fst (ex w ?L) = fst (ex w' ?L)" for w w'
    using gl by (simp add: gitLike_def)
  have gw: "snd (ex w ?G) = w" for w
    using gl by (simp add: gitLike_def)
  have ag: "configured (fst (ex (snd (ex w (io, ''git'' # addHelperArgs host p))) ?G))"
    if "fst (ex w (io, ''git'' # addHelperArgs host p)) \<noteq> Pending"
      and "\<not> failed (fst (ex w (io, ''git'' # addHelperArgs host p)))" for w p
    using gl that by (simp add: gitLike_def)
  obtain w tr where s: "s = (w, tr)"
    by (cases s)
  have Pw: "P (w', tr') = (fst (P s), (w', tr' @ [?L]))" for w' tr'
    using ls [of w' w] by (simp add: P s lw)
  obtain p where p: "fst (P s) = Fulfilled p"
    using N [of s force] first by auto
  have Ps: "P (w', tr') = (Fulfilled p, (w', tr' @ [?L]))" for w' tr'
    by (simp add: Pw p)
  have G: "run ex io (''git'' # getHelperArgs host) (w', tr') = (fst (ex w' ?G), (w', tr' @ [?G]))"
    for w' tr'
    by (simp add: prod_eq_iff run_fst run_snd gw)
  have again: "F False (w', tr') = (Fulfilled True, (w', tr' @ [?L, ?G]))"
    if "configured (fst (ex w' ?G))" for w' tr'
    using that by (simp add: F [OF Ps] G Let_def)
  note first' = first [unfolded s F [OF Ps] G Let_def]
  show ?thesis
  proof (cases "configured (fst (ex w ?G)) \<and> \<not> force")
    case True
    then have "s1 = (w, tr @ [?L, ?G])"
      using first' by simp
    then show ?thesis
      using again [of w "tr @ [?L, ?G]"] True by simp
  next
    case False
    obtain pc wc where c: "ex w ?C = (pc, wc)"
      by (cases "ex w ?C")
    obtain pa wa where a: "ex wc (io, ''git'' # addHelperArgs host p) = (pa, wa)"
      by (cases "ex wc (io, ''git'' # addHelperArgs host p)")
    have r: "pa \<noteq> Pending \<and> \<not> failed pa
        \<and> s1 = (wa, tr @ [?L, ?G, ?C, (io, ''git'' # addHelperArgs host p)])"
      using first' False
      by (cases pa) (auto simp add: run_def c a failed_def split: if_splits)
    have "configured (fst (ex wa ?G))"
      using ag [of wc p] r by (simp add: a)
    then show ?thesis
      using again [of wa "tr @ [?L, ?G, ?C, (io, ''git'' # addHelperArgs host p)]"] r by simp
  qed
qed

lemma setup_idempotent:
  assumes "gitLike ex Capture platform host"
    and "runGlabAuthSetupGit ex platform host force s = (Fulfilled True, s1)"
  shows "runGlabAuthSetupGit ex platform host False s1 =
           (Fulfilled True,
            (fst s1, snd s1 @ [(Capture, [lookupCommand platform, ''glab'']),
                               (Capture, ''git'' # getHelperArgs host)]))"
  by (rule idempotent_generic
      [where F = "\<lambda>force. runGlabAuthSetupGit ex platform host force"
        and P = "getGlabPath ex platform", OF assms(1) getGlabPath_unfold setup_unfold
        setup_not_resolved assms(2)])

lemma setup_spawn_idempotent:
  assumes "gitLike (spawnRunner sp) Pipe platform host"
    and "runGlabAuthSetupGit_spawn sp platform host force s = (Fulfilled True, s1)"
  shows "runGlabAuthSetupGit_spawn sp platform host False s1 =
           (Fulfilled True,
            (fst s1, snd s1 @ [(Pipe, [lookupCommand platform, ''glab'']),
                               (Pipe, ''git'' # getHelperArgs host)]))"
  by (rule idempotent_generic
      [where F = "\<lambda>force. runGlabAuthSetupGit_spawn sp platform host force"
        and P = "getGlabPath_spawn sp platform", OF assms(1) getGlabPath_spawn_unfold
        setup_spawn_unfold setup_spawn_not_resolved assms(2)])

text \<open>
  Claim C4. Let the external tools behave as \<open>gitLike\<close> says: the lookup of the executable
  and the read of the helper change nothing, the lookup answers the same in every world, and
  a helper that was added is then read back as set and not empty. Then, for every hostname,
  after a call of \<^verbatim>\<open>runGlabAuthSetupGit\<close> that returned true, a second call with \<open>force\<close> false
  returns true and issues exactly two requests, the lookup and the read of the helper: no
  \<^verbatim>\<open>git config\<close> write. The world, and with it the helper value the first call produced, is
  the same after the second call as before it. This holds in both revisions.
\<close>

theorem setup_twice_is_idempotent:
  "(gitLike ex Capture platform host
    \<and> runGlabAuthSetupGit ex platform host force s = (Fulfilled True, s1) \<longrightarrow>
      runGlabAuthSetupGit ex platform host False s1 =
        (Fulfilled True,
         (fst s1, snd s1 @ [(Capture, [lookupCommand platform, ''glab'']),
                            (Capture, ''git'' # getHelperArgs host)])))
   \<and> (gitLike (spawnRunner sp) Pipe platform host
    \<and> runGlabAuthSetupGit_spawn sp platform host force t = (Fulfilled True, t1) \<longrightarrow>
      runGlabAuthSetupGit_spawn sp platform host False t1 =
        (Fulfilled True,
         (fst t1, snd t1 @ [(Pipe, [lookupCommand platform, ''glab'']),
                            (Pipe, ''git'' # getHelperArgs host)])))"
  using setup_idempotent [of ex platform host force s s1]
    setup_spawn_idempotent [of sp platform host force t t1]
  by blast

lemma dropWhile_snoc_not_Nil: "\<not> P c \<Longrightarrow> dropWhile P (xs @ [c]) \<noteq> []"
  by (induction xs) auto

lemma trim_not_Nil: "\<not> isSpace c \<Longrightarrow> trim (c # s) \<noteq> []"
  by (simp add: trim_def dropWhile_snoc_not_Nil)

lemma toySpawner_gitLike: "gitLike (spawnRunner toySpawner) Pipe ''linux'' None"
proof -
  have a: "spawnRunner toySpawner w (Pipe, [lookupCommand ''linux'', ''glab''])
             = (Fulfilled \<lparr>exitCode = 0, stdout = trim ''/usr/bin/glab'', stderr = trim []\<rparr>, w)"
    for w
    by (simp add: spawnRunner_def toySpawner_def toyTool_def lookupCommand_def orZero_def)
  have b: "snd (spawnRunner toySpawner w (Pipe, ''git'' # getHelperArgs None)) = w" for w
    by (simp add: spawnRunner_def toySpawner_def toyTool_def getHelperArgs_def toyRead_def
        split: option.splits)
  have n: "\<not> isSpace (CHR ''!'')"
    by (simp add: isSpace_def)
  have c: "configured
              (fst (spawnRunner toySpawner
                      (snd (spawnRunner toySpawner w (Pipe, ''git'' # addHelperArgs None p)))
                      (Pipe, ''git'' # getHelperArgs None)))"
    if "\<not> failed (fst (spawnRunner toySpawner w (Pipe, ''git'' # addHelperArgs None p)))" for w p
    using that trim_not_Nil [OF n, of "p @ '' auth git-credential''"]
    by (cases "locked w")
      (simp_all add: spawnRunner_def toySpawner_def toyTool_def helper_args toyRead_def
        toyWrite_def failed_def configured_def credentialHelper_def orZero_def)
  show ?thesis
    unfolding gitLike_def using b c by (simp add: a)
qed

lemma toyRunner_gitLike: "gitLike toyRunner Capture ''linux'' None"
proof -
  have k: "helperKey None = ''credential.https://gitlab.com.helper''"
    by (simp add: helperKey_def strOf_def defaultTo_def)
  have a: "toyRunner w (Capture, [lookupCommand ''linux'', ''glab''])
             = (Fulfilled \<lparr>exitCode = 0, stdout = ''/usr/bin/glab'', stderr = []\<rparr>, w)" for w
    by (simp add: toyRunner_def toyTool_def lookupCommand_def)
  have b: "snd (toyRunner w (Capture, ''git'' # getHelperArgs None)) = w" for w
    by (simp add: toyRunner_def toyTool_def getHelperArgs_def toyRead_def split: option.splits)
  have c: "configured
              (fst (toyRunner (snd (toyRunner w (Capture, ''git'' # addHelperArgs None p)))
                      (Capture, ''git'' # getHelperArgs None)))"
    if "\<not> failed (fst (toyRunner w (Capture, ''git'' # addHelperArgs None p)))" for w p
    using that
    by (cases "locked w")
      (simp_all add: toyRunner_def toyTool_def helper_args toyRead_def toyWrite_def failed_def
        configured_def credentialHelper_def)
  show ?thesis
    unfolding gitLike_def using b c by (simp add: a)
qed

theorem setup_twice_is_idempotent_witness:
  "gitLike toyRunner Capture ''linux'' None
   \<and> runGlabAuthSetupGit toyRunner ''linux'' None False (emptyWorld, [])
       = (Fulfilled True,
          (\<lparr>config = [(''--global credential.https://gitlab.com.helper'',
                        ''!/usr/bin/glab auth git-credential''),
                       (''--global credential.https://gitlab.com.helper'', [])],
            locked = False\<rparr>,
           [(Capture, [''which'', ''glab'']),
            (Capture, [''git'', ''config'', ''--global'', ''--get'',
                       ''credential.https://gitlab.com.helper'']),
            (Capture, [''git'', ''config'', ''--global'',
                       ''credential.https://gitlab.com.helper'', []]),
            (Capture, [''git'', ''config'', ''--global'', ''--add'',
                       ''credential.https://gitlab.com.helper'',
                       ''!/usr/bin/glab auth git-credential''])]))
   \<and> runGlabAuthSetupGit toyRunner ''linux'' None False
        (\<lparr>config = [(''--global credential.https://gitlab.com.helper'',
                        ''!/usr/bin/glab auth git-credential''),
                       (''--global credential.https://gitlab.com.helper'', [])],
            locked = False\<rparr>,
           [(Capture, [''which'', ''glab'']),
            (Capture, [''git'', ''config'', ''--global'', ''--get'',
                       ''credential.https://gitlab.com.helper'']),
            (Capture, [''git'', ''config'', ''--global'',
                       ''credential.https://gitlab.com.helper'', []]),
            (Capture, [''git'', ''config'', ''--global'', ''--add'',
                       ''credential.https://gitlab.com.helper'',
                       ''!/usr/bin/glab auth git-credential''])])
       = (Fulfilled True,
          (\<lparr>config = [(''--global credential.https://gitlab.com.helper'',
                        ''!/usr/bin/glab auth git-credential''),
                       (''--global credential.https://gitlab.com.helper'', [])],
            locked = False\<rparr>,
           [(Capture, [''which'', ''glab'']),
            (Capture, [''git'', ''config'', ''--global'', ''--get'',
                       ''credential.https://gitlab.com.helper'']),
            (Capture, [''git'', ''config'', ''--global'',
                       ''credential.https://gitlab.com.helper'', []]),
            (Capture, [''git'', ''config'', ''--global'', ''--add'',
                       ''credential.https://gitlab.com.helper'',
                       ''!/usr/bin/glab auth git-credential'']),
            (Capture, [''which'', ''glab'']),
            (Capture, [''git'', ''config'', ''--global'', ''--get'',
                       ''credential.https://gitlab.com.helper''])]))
   \<and> gitLike (spawnRunner toySpawner) Pipe ''linux'' None
   \<and> fst (runGlabAuthSetupGit_spawn toySpawner ''linux'' None False (emptyWorld, []))
       = Fulfilled True
   \<and> fst (runGlabAuthSetupGit_spawn toySpawner ''linux'' None False
            (snd (runGlabAuthSetupGit_spawn toySpawner ''linux'' None False (emptyWorld, []))))
       = Fulfilled True"
proof -
  have k: "helperKey None = ''credential.https://gitlab.com.helper''"
    by (simp add: helperKey_def strOf_def defaultTo_def)
  have tr: "trim ''/usr/bin/glab'' = ''/usr/bin/glab''"
    by (simp add: trim_def isSpace_def)
  have l: "getGlabPath toyRunner ''linux'' (emptyWorld, [])
             = (Fulfilled ''/usr/bin/glab'', (emptyWorld, [(Capture, [''which'', ''glab''])]))"
    by (simp add: getGlabPath_def async_defs run_def toyRunner_def toyTool_def lookupCommand_def tr)
  have first: "runGlabAuthSetupGit toyRunner ''linux'' None False (emptyWorld, [])
       = (Fulfilled True,
          (\<lparr>config = [(''--global credential.https://gitlab.com.helper'',
                        ''!/usr/bin/glab auth git-credential''),
                       (''--global credential.https://gitlab.com.helper'', [])],
            locked = False\<rparr>,
           [(Capture, [''which'', ''glab'']),
            (Capture, [''git'', ''config'', ''--global'', ''--get'',
                       ''credential.https://gitlab.com.helper'']),
            (Capture, [''git'', ''config'', ''--global'',
                       ''credential.https://gitlab.com.helper'', []]),
            (Capture, [''git'', ''config'', ''--global'', ''--add'',
                       ''credential.https://gitlab.com.helper'',
                       ''!/usr/bin/glab auth git-credential''])]))"
    unfolding setup_unfold [OF l]
    by (simp add: run_def toyRunner_def toyTool_def helper_args k toyRead_def toyWrite_def
        emptyWorld_def configured_def credentialHelper_def Let_def)
  note t = setup_twice_is_idempotent [where ex = toyRunner and platform = "''linux''"
      and host = None and force = False and s = "(emptyWorld, [])" and sp = toySpawner
      and t = "(emptyWorld, [])", THEN conjunct1, rule_format, OF conjI, OF toyRunner_gitLike first]
  have l': "getGlabPath_spawn toySpawner ''linux'' (emptyWorld, [])
             = (Fulfilled ''/usr/bin/glab'', (emptyWorld, [(Pipe, [''which'', ''glab''])]))"
    by (simp add: getGlabPath_spawn_def async_defs execCommand_def toySpawner_def toyTool_def
        lookupCommand_def tr orZero_def)
  have first': "fst (runGlabAuthSetupGit_spawn toySpawner ''linux'' None False (emptyWorld, []))
       = Fulfilled True"
    unfolding setup_spawn_unfold [OF l']
    by (simp add: run_def spawnRunner_def toySpawner_def toyTool_def helper_args k toyRead_def
        toyWrite_def emptyWorld_def configured_def credentialHelper_def Let_def orZero_def)
  have first'': "runGlabAuthSetupGit_spawn toySpawner ''linux'' None False (emptyWorld, [])
       = (Fulfilled True,
          snd (runGlabAuthSetupGit_spawn toySpawner ''linux'' None False (emptyWorld, [])))"
    using first' by (simp add: prod_eq_iff)
  note t' = setup_twice_is_idempotent [where ex = toyRunner and platform = "''linux''"
      and host = None and force = False and s = "(emptyWorld, [])" and sp = toySpawner
      and t = "(emptyWorld, [])", THEN conjunct2, rule_format, OF conjI,
      OF toySpawner_gitLike first'']
  show ?thesis
    using toyRunner_gitLike first t toySpawner_gitLike first' t'
    by (simp add: lookupCommand_def getHelperArgs_def k)
qed

end
